theory Spec2Isabelle
  imports Complex_Main
begin

section \<open>Python values, exceptions and the warehouse\<close>

text \<open>
  The scripts talk to a warehouse client and to the file system. Both are external, so
  every call that can raise is a value here: a query either raises or yields its rows,
  and a file write either raises or succeeds. A Python exception is its message
  (\<^verbatim>\<open>str(e)\<close>), and a function that can raise returns \<open>exn + 'a\<close>, with \<open>Inl\<close> the
  exception. Wall-clock timestamps and the text of log lines carry no behaviour and are
  left out of the quality report's model. Floats are IEEE binary64 values with their
  rounding.
\<close>

datatype exn = Exception string

datatype pyval = PyBool bool | PyNone

fun truthy :: "pyval \<Rightarrow> bool" where
  "truthy (PyBool b) = b"
| "truthy PyNone = False"

datatype 'row query_result = QueryRaises exn | QueryRows "'row list"

text \<open>
  \<^verbatim>\<open>try: body  except Exception as e: logger.error(...); return False\<close>, the handler
  every check of \<^verbatim>\<open>DataQualityChecker\<close> wraps around its body.
\<close>

definition except_return_False :: "exn + pyval \<Rightarrow> exn + pyval" where
  "except_return_False body =
     (case body of Inl e \<Rightarrow> Inr (PyBool False) | Inr v \<Rightarrow> Inr v)"

text \<open>
  A Python dict keeps insertion order; assigning to a key that is present replaces the
  value in place, assigning to a new key appends.
\<close>

fun dict_set :: "('k \<times> 'v) list \<Rightarrow> 'k \<Rightarrow> 'v \<Rightarrow> ('k \<times> 'v) list" where
  "dict_set [] k v = [(k, v)]"
| "dict_set ((k', v') # kvs) k v =
     (if k' = k then (k, v) # kvs else (k', v') # dict_set kvs k v)"

section \<open>Floating point\<close>

text \<open>
  A Python or numpy float is a binary64 value: a finite real with a 53-bit significand,
  an infinity or NaN. A finite value is the real it denotes; the sign of a zero is not
  kept (it only shows in a division by zero, and no zero of the scripts is negative).
  The result of an operation is the exact result rounded to the nearest binary64 value,
  ties to the even significand, and a result of magnitude \<open>2 ^ 1024\<close> or more is an
  infinity.
\<close>

datatype float64 = Finite real | NaN | PInf | NInf

definition round_half_even :: "real \<Rightarrow> int" where
  "round_half_even x =
     (let f = \<lfloor>x\<rfloor>; d = x - of_int f
      in if d < 1 / 2 then f else if 1 / 2 < d then f + 1 else if even f then f else f + 1)"

text \<open>
  The exponent of the binade of \<open>x\<close>, not below that of the subnormal numbers, and the
  distance between neighbouring binary64 values there.
\<close>

definition binary64_exponent :: "real \<Rightarrow> int" where
  "binary64_exponent x = max \<lfloor>log 2 \<bar>x\<bar>\<rfloor> (- 1022)"

definition binary64_ulp :: "real \<Rightarrow> real" where
  "binary64_ulp x = 2 powr of_int (binary64_exponent x - 52)"

definition round_binary64 :: "real \<Rightarrow> real" where
  "round_binary64 x =
     (if x = 0 then 0 else of_int (round_half_even (x / binary64_ulp x)) * binary64_ulp x)"

definition binary64 :: "real \<Rightarrow> float64" where
  "binary64 x =
     (let r = round_binary64 x
      in if 2 ^ 1024 \<le> r then PInf else if r \<le> - (2 ^ 1024) then NInf else Finite r)"

text \<open>
  Division and multiplication of floats. The division is numpy's: a zero divisor gives
  an infinity or NaN and does not raise.
\<close>

fun float_div :: "float64 \<Rightarrow> float64 \<Rightarrow> float64" where
  "float_div (Finite a) (Finite b) =
     (if b \<noteq> 0 then binary64 (a / b)
      else if a = 0 then NaN else if a > 0 then PInf else NInf)"
| "float_div (Finite a) PInf = Finite 0"
| "float_div (Finite a) NInf = Finite 0"
| "float_div PInf (Finite b) = (if b \<ge> 0 then PInf else NInf)"
| "float_div NInf (Finite b) = (if b \<ge> 0 then NInf else PInf)"
| "float_div PInf PInf = NaN"
| "float_div PInf NInf = NaN"
| "float_div NInf PInf = NaN"
| "float_div NInf NInf = NaN"
| "float_div NaN y = NaN"
| "float_div (Finite a) NaN = NaN"
| "float_div PInf NaN = NaN"
| "float_div NInf NaN = NaN"

fun float_mul :: "float64 \<Rightarrow> float64 \<Rightarrow> float64" where
  "float_mul (Finite a) (Finite b) = binary64 (a * b)"
| "float_mul (Finite a) PInf = (if a = 0 then NaN else if a > 0 then PInf else NInf)"
| "float_mul (Finite a) NInf = (if a = 0 then NaN else if a > 0 then NInf else PInf)"
| "float_mul PInf (Finite b) = (if b = 0 then NaN else if b > 0 then PInf else NInf)"
| "float_mul NInf (Finite b) = (if b = 0 then NaN else if b > 0 then NInf else PInf)"
| "float_mul PInf PInf = PInf"
| "float_mul PInf NInf = NInf"
| "float_mul NInf PInf = NInf"
| "float_mul NInf NInf = PInf"
| "float_mul NaN y = NaN"
| "float_mul (Finite a) NaN = NaN"
| "float_mul PInf NaN = NaN"
| "float_mul NInf NaN = NaN"

text \<open>\<open>x < y\<close> on floats; every comparison with NaN is false.\<close>

fun float_less :: "float64 \<Rightarrow> float64 \<Rightarrow> bool" where
  "float_less (Finite a) (Finite b) = (a < b)"
| "float_less (Finite a) PInf = True"
| "float_less (Finite a) NInf = False"
| "float_less NInf (Finite b) = True"
| "float_less NInf PInf = True"
| "float_less NInf NInf = False"
| "float_less PInf y = False"
| "float_less NaN y = False"
| "float_less (Finite a) NaN = False"
| "float_less NInf NaN = False"

text \<open>
  Python's true division of two integers: the exact quotient rounded to a float;
  ZeroDivisionError for a zero divisor, OverflowError for a quotient too large for a
  float.
\<close>

definition truediv :: "int \<Rightarrow> int \<Rightarrow> exn + float64" where
  "truediv a b =
     (if b = 0 then Inl (Exception ''division by zero'')
      else (case binary64 (real_of_int a / real_of_int b) of
              Finite q \<Rightarrow> Inr (Finite q)
            | _ \<Rightarrow> Inl (Exception ''integer division result too large for a float'')))"

section \<open>The quality checks\<close>

text \<open>
  What the warehouse answers to each query of \<^verbatim>\<open>data_quality_check.py\<close>. A check is
  a state transformer on the list of tables queried so far, so that a check being
  evaluated is visible in the final state.
\<close>

record freshness_row =
  hours_since_update :: "int option"

record completeness_row =
  total_records :: int
  valid_timestamps :: int
  valid_filenames :: int
  valid_loadtimes :: int

record daily_row =
  daily_records :: int
  daily_files :: int
  moving_avg_7d :: real

text \<open>
  The data frame of the consistency query is an object of the data frame library, which
  is not part of the scripts: the model keeps its rows and what its methods \<^verbatim>\<open>std()\<close>
  and \<^verbatim>\<open>mean()\<close> answer for the column \<^verbatim>\<open>daily_records\<close>, two floats.
\<close>

record dataframe =
  frame_rows :: "daily_row list"
  daily_records_std :: float64
  daily_records_mean :: float64

record warehouse =
  freshness_query :: "freshness_row query_result"
  completeness_query :: "completeness_row query_result"
  consistency_query :: "exn + dataframe"
  model_query :: "string \<Rightarrow> int query_result"

type_synonym issued = "string list"

type_synonym 's check_function = "'s \<Rightarrow> (exn + pyval) \<times> 's"

subsection \<open>Freshness\<close>

text \<open>
  The body returns inside the loop, at the first row. A NULL \<^verbatim>\<open>hours_since_update\<close>
  (no partition at all) makes the \<^verbatim>\<open>:.1f\<close> format raise TypeError; no row at all
  falls off the end of the function, which returns \<^verbatim>\<open>None\<close>.
\<close>

definition check_data_freshness_body :: "freshness_row query_result \<Rightarrow> exn + pyval" where
  "check_data_freshness_body q =
     (case q of
        QueryRaises e \<Rightarrow> Inl e
      | QueryRows rows \<Rightarrow>
          (case rows of
             [] \<Rightarrow> Inr PyNone
           | row # _ \<Rightarrow>
               (case hours_since_update row of
                  None \<Rightarrow> Inl (Exception ''unsupported format string passed to NoneType.__format__'')
                | Some hours_since \<Rightarrow>
                    if hours_since < 24 then Inr (PyBool True) else Inr (PyBool False))))"

definition check_data_freshness :: "warehouse \<Rightarrow> issued check_function" where
  "check_data_freshness wh issued_before =
     (except_return_False (check_data_freshness_body (freshness_query wh)),
      issued_before @ [''cdo_challenge''])"

subsection \<open>Completeness\<close>

text \<open>
  The three percentages are computed one after the other; only the divisions can raise.
\<close>

definition completeness_verdict :: "completeness_row \<Rightarrow> exn + pyval" where
  "completeness_verdict row =
     (case truediv (valid_timestamps row) (total_records row) of
        Inl e \<Rightarrow> Inl e
      | Inr t \<Rightarrow>
          (let timestamp_completeness = float_mul t (Finite 100)
           in case truediv (valid_filenames row) (total_records row) of
                Inl e \<Rightarrow> Inl e
              | Inr f \<Rightarrow>
                  (let filename_completeness = float_mul f (Finite 100)
                   in case truediv (valid_loadtimes row) (total_records row) of
                        Inl e \<Rightarrow> Inl e
                      | Inr l \<Rightarrow>
                          (let loadtime_completeness = float_mul l (Finite 100)
                           in if float_less (Finite 95) timestamp_completeness
                                 \<and> float_less (Finite 95) filename_completeness
                              then Inr (PyBool True) else Inr (PyBool False)))))"

definition check_data_completeness_body :: "completeness_row query_result \<Rightarrow> exn + pyval" where
  "check_data_completeness_body q =
     (case q of
        QueryRaises e \<Rightarrow> Inl e
      | QueryRows rows \<Rightarrow>
          (case rows of
             [] \<Rightarrow> Inr PyNone
           | row # _ \<Rightarrow> completeness_verdict row))"

definition check_data_completeness :: "warehouse \<Rightarrow> issued check_function" where
  "check_data_completeness wh issued_before =
     (except_return_False (check_data_completeness_body (completeness_query wh)),
      issued_before @ [''cdo_challenge''])"

subsection \<open>Consistency\<close>

text \<open>
  The coefficient of variation is computed from the two statistics of the frame. The
  library's standard deviation is the sample one (\<^verbatim>\<open>ddof=1\<close>): NaN for fewer than two
  rows, and then every comparison is false.
\<close>

definition check_data_consistency_body :: "exn + dataframe \<Rightarrow> exn + pyval" where
  "check_data_consistency_body q =
     (case q of
        Inl e \<Rightarrow> Inl e
      | Inr df \<Rightarrow>
          if length (frame_rows df) = 0 then Inr (PyBool False)
          else (let coefficient_variation =
                      float_mul (float_div (daily_records_std df) (daily_records_mean df))
                        (Finite 100)
                in if float_less coefficient_variation (Finite 50)
                   then Inr (PyBool True) else Inr (PyBool False)))"

definition check_data_consistency :: "warehouse \<Rightarrow> issued check_function" where
  "check_data_consistency wh issued_before =
     (except_return_False (check_data_consistency_body (consistency_query wh)),
      issued_before @ [''cdo_challenge''])"

subsection \<open>Downstream tables\<close>

definition models_to_check :: "string list" where
  "models_to_check = [''stg_cdo_challenge'', ''int_daily_metrics'', ''mart_business_insights'']"

text \<open>
  One iteration of the loop over the models: every row of the answer overwrites the
  model's entry, and the handler inside the loop stores 0 for a query that raises.
\<close>

definition check_model :: "(string \<Rightarrow> int query_result) \<Rightarrow> (string \<times> int) list \<Rightarrow> string
    \<Rightarrow> (string \<times> int) list" where
  "check_model query results model =
     (case query model of
        QueryRaises e \<Rightarrow> dict_set results model 0
      | QueryRows count_result \<Rightarrow>
          foldl (\<lambda>res record_count. dict_set res model record_count) results count_result)"

definition model_counts :: "(string \<Rightarrow> int query_result) \<Rightarrow> (string \<times> int) list" where
  "model_counts query = foldl (check_model query) [] models_to_check"

definition check_dbt_models :: "warehouse \<Rightarrow> issued check_function" where
  "check_dbt_models wh issued_before =
     (let results = model_counts (model_query wh);
          all_models_have_data = list_all (\<lambda>count. count > 0) (map snd results)
      in (if all_models_have_data then Inr (PyBool True) else Inr (PyBool False),
          issued_before @ models_to_check))"

section \<open>The report aggregator\<close>

record check_entry =
  status :: string
  error :: "string option"

record summary =
  total_checks :: nat
  passed_checks :: nat
  failed_checks :: nat

record report =
  checks :: "(string \<times> check_entry) list"
  overall_score :: float64
  report_summary :: summary

fun entry_of :: "exn + pyval \<Rightarrow> check_entry" where
  "entry_of (Inr result) =
     \<lparr>status = (if truthy result then ''passed'' else ''failed''), error = None\<rparr>"
| "entry_of (Inl (Exception msg)) = \<lparr>status = ''error'', error = Some msg\<rparr>"

text \<open>The loop over the registered checks, each one inside its own try block.\<close>

fun run_checks :: "(string \<times> 's check_function) list \<Rightarrow> 's \<Rightarrow> (string \<times> check_entry) list
    \<Rightarrow> (string \<times> check_entry) list \<times> 's" where
  "run_checks [] s report_checks = (report_checks, s)"
| "run_checks ((check_name, check_function) # rest) s report_checks =
     (case check_function s of
        (result, s') \<Rightarrow> run_checks rest s' (dict_set report_checks check_name (entry_of result)))"

definition count_passed :: "(string \<times> check_entry) list \<Rightarrow> nat" where
  "count_passed report_checks =
     length (filter (\<lambda>check. status check = ''passed'') (map snd report_checks))"

text \<open>
  The report of a list of checks: run them, score them, write the file. The score's
  division raises on an empty check list; a failing \<^verbatim>\<open>os.makedirs\<close>, \<^verbatim>\<open>open\<close> or
  \<^verbatim>\<open>json.dump\<close> (\<open>write = Some e\<close>) is not handled, so the exception leaves the
  function in place of the report.
\<close>

definition generate_report :: "(string \<times> 's check_function) list \<Rightarrow> 's \<Rightarrow> exn option
    \<Rightarrow> (exn + report) \<times> 's" where
  "generate_report registered s write =
     (case run_checks registered s [] of
        (report_checks, s') \<Rightarrow>
          (let passed = count_passed report_checks;
               total = length report_checks
           in (case truediv (int passed) (int total) of
                 Inl e \<Rightarrow> (Inl e, s')
               | Inr ratio \<Rightarrow>
                   (let quality_score = float_mul ratio (Finite 100);
                        rep = \<lparr>checks = report_checks,
                               overall_score = quality_score,
                               report_summary = \<lparr>total_checks = total,
                                                 passed_checks = passed,
                                                 failed_checks = total - passed\<rparr>\<rparr>
                    in (case write of
                          Some e \<Rightarrow> (Inl e, s')
                        | None \<Rightarrow> (Inr rep, s'))))))"

definition registered_checks :: "warehouse \<Rightarrow> (string \<times> issued check_function) list" where
  "registered_checks wh =
     [(''data_freshness'', check_data_freshness wh),
      (''data_completeness'', check_data_completeness wh),
      (''data_consistency'', check_data_consistency wh),
      (''dbt_models'', check_dbt_models wh)]"

definition generate_quality_report :: "warehouse \<Rightarrow> exn option \<Rightarrow> (exn + report) \<times> issued" where
  "generate_quality_report wh write = generate_report (registered_checks wh) [] write"

section \<open>The loader pipeline\<close>

text \<open>
  \<^verbatim>\<open>load_data.py\<close>. Every function returns the log lines it wrote with its result. The
  load job is what the \<open>k\<close>-th call of \<^verbatim>\<open>load_job.done()\<close> answers; the polling loop
  has no bound, so its model is a partial function and \<open>None\<close> is a loop that never ends.
\<close>

datatype event = LogInfo string | LogError string

datatype poll = Pending | Done | PollRaises exn

record validation_row =
  total_rows :: int
  files_processed :: int
  earliest_load :: string
  latest_load :: string

record loader_env =
  create_client :: "exn option"
  create_dataset :: "exn option"
  load_table_from_uri :: "exn option"
  job_done :: "nat \<Rightarrow> poll"
  job_errors :: "string list"
  get_table :: "exn option"
  validation_query :: "exn + validation_row list"
  validation_get_table :: "exn + (string \<times> string) list"

definition create_bigquery_client :: "loader_env \<Rightarrow> event list \<times> (exn + unit)" where
  "create_bigquery_client env =
     (case create_client env of
        None \<Rightarrow> ([LogInfo ''Cliente BigQuery creado''], Inr ())
      | Some e \<Rightarrow> ([LogError ''Error creando cliente BigQuery''], Inl e))"

definition create_dataset_and_table :: "loader_env \<Rightarrow> event list \<times> (exn + unit)" where
  "create_dataset_and_table env =
     (case create_dataset env of
        None \<Rightarrow> ([LogInfo ''Dataset creado'', LogInfo ''Tabla configurada''], Inr ())
      | Some e \<Rightarrow> ([LogError ''Error creando dataset/tabla''], Inl e))"

text \<open>
  \<^verbatim>\<open>while not load_job.done(): time.sleep(30); logger.info(state)\<close>, started at call
  \<open>k\<close>: the number of calls that answered "not done", and the exception if a call raised.
\<close>

partial_function (option) monitor :: "(nat \<Rightarrow> poll) \<Rightarrow> nat \<Rightarrow> (nat \<times> exn option) option" where
  "monitor done k =
     (case done k of
        Done \<Rightarrow> Some (k, None)
      | PollRaises e \<Rightarrow> Some (k, Some e)
      | Pending \<Rightarrow> monitor done (Suc k))"

definition load_data_from_gcs :: "loader_env \<Rightarrow> (event list \<times> bool) option" where
  "load_data_from_gcs env =
     (let started = [LogInfo ''Iniciando carga de datos'',
                     LogInfo ''Este proceso puede tomar varias horas'']
      in case load_table_from_uri env of
           Some e \<Rightarrow> Some (started @ [LogError ''Error en la carga de datos''], False)
         | None \<Rightarrow>
             (case monitor (job_done env) 0 of
                None \<Rightarrow> None
              | Some (k, polled) \<Rightarrow>
                  (let monitored = started @ [LogInfo ''Monitoreando progreso de la carga'']
                                   @ replicate k (LogInfo ''Estado'')
                   in case polled of
                        Some e \<Rightarrow> Some (monitored @ [LogError ''Error en la carga de datos''], False)
                      | None \<Rightarrow>
                          if job_errors env \<noteq> []
                          then Some (monitored @ [LogError ''Errores en la carga''], False)
                          else (case get_table env of
                                  Some e \<Rightarrow>
                                    Some (monitored @ [LogError ''Error en la carga de datos''], False)
                                | None \<Rightarrow>
                                    Some (monitored @ [LogInfo ''Carga completada exitosamente!'',
                                                       LogInfo ''Registros cargados'',
                                                       LogInfo ''Tamano de tabla''], True)))))"

text \<open>
  The validation step logs three lines for every row of its query, fetches the table
  (a name and a type for every field of its schema) and logs one line for every field.
  The query and the table lookup are inside one try block.
\<close>

definition validate_data_quality :: "loader_env \<Rightarrow> event list \<times> bool" where
  "validate_data_quality env =
     (let started = [LogInfo ''Validando calidad de los datos'']
      in case validation_query env of
           Inl e \<Rightarrow> (started @ [LogError ''Error en validacion''], False)
         | Inr results \<Rightarrow>
             (let rows_logged =
                    started @ concat (map (\<lambda>row. [LogInfo ''Total de filas'',
                                                   LogInfo ''Archivos procesados'',
                                                   LogInfo ''Rango de carga'']) results)
              in case validation_get_table env of
                   Inl e \<Rightarrow> (rows_logged @ [LogError ''Error en validacion''], False)
                 | Inr schema \<Rightarrow>
                     (rows_logged @ [LogInfo ''Esquema de tabla'']
                        @ map (\<lambda>(name, field_type).
                                 LogInfo (''   - '' @ name @ '': '' @ field_type)) schema,
                      True)))"

text \<open>
  The driver. Its outcome is the log and the exception that leaves it, if any: the
  process ends with exit code 1 when an exception leaves \<^verbatim>\<open>main\<close> and with 0 when
  \<^verbatim>\<open>main\<close> returns.
\<close>

definition main :: "loader_env \<Rightarrow> (event list \<times> exn option) option" where
  "main env =
     (let l0 = [LogInfo ''Iniciando proceso de carga de datos'']
      in case create_bigquery_client env of
           (l1, Inl e) \<Rightarrow> Some (l0 @ l1 @ [LogError ''Error critico''], Some e)
         | (l1, Inr _) \<Rightarrow>
             (case create_dataset_and_table env of
                (l2, Inl e) \<Rightarrow> Some (l0 @ l1 @ l2 @ [LogError ''Error critico''], Some e)
              | (l2, Inr _) \<Rightarrow>
                  (case load_data_from_gcs env of
                     None \<Rightarrow> None
                   | Some (l3, success) \<Rightarrow>
                       if success
                       then (case validate_data_quality env of
                               (l4, _) \<Rightarrow>
                                 Some (l0 @ l1 @ l2 @ l3 @ l4
                                       @ [LogInfo ''Proceso de carga completado exitosamente!''],
                                       None))
                       else Some (l0 @ l1 @ l2 @ l3 @ [LogError ''Fallo en el proceso de carga''],
                                  None))))"

fun exit_code :: "exn option \<Rightarrow> nat" where
  "exit_code None = 0"
| "exit_code (Some e) = 1"

section \<open>Reference results and sample inputs\<close>

text \<open>
  What the specification asks of the aggregator, written without the dict: one result
  per registered check, in registration order, each check evaluated in the state the
  checks before it left behind.
\<close>

fun spec_results :: "(string \<times> 's check_function) list \<Rightarrow> 's \<Rightarrow> (string \<times> check_entry) list" where
  "spec_results [] s = []"
| "spec_results ((check_name, check_function) # rest) s =
     (check_name, entry_of (fst (check_function s)))
       # spec_results rest (snd (check_function s))"

fun spec_final_state :: "(string \<times> 's check_function) list \<Rightarrow> 's \<Rightarrow> 's" where
  "spec_final_state [] s = s"
| "spec_final_state ((check_name, check_function) # rest) s =
     spec_final_state rest (snd (check_function s))"

text \<open>The state each registered check is called in.\<close>

fun spec_call_states :: "(string \<times> 's check_function) list \<Rightarrow> 's \<Rightarrow> 's list" where
  "spec_call_states [] s = []"
| "spec_call_states ((check_name, check_function) # rest) s =
     s # spec_call_states rest (snd (check_function s))"

text \<open>
  The row count a downstream table reports, in the specification's words: a query that
  raises counts as zero rows. A \<^verbatim>\<open>COUNT(*)\<close> query answers with exactly one row; an answer
  with no row at all would leave the table without an entry (\<open>None\<close>), and the last row
  of a longer answer is the one that stays in the dict.
\<close>

definition reported_count :: "int query_result \<Rightarrow> int option" where
  "reported_count answer =
     (case answer of
        QueryRaises e \<Rightarrow> Some 0
      | QueryRows rows \<Rightarrow> (if rows = [] then None else Some (last rows)))"

text \<open>
  The coefficient of variation of a series of counts in the specification's words,
  \<open>stddev / mean * 100\<close>, over the reals and without rounding, with the sample standard
  deviation.
\<close>

definition spec_mean :: "int list \<Rightarrow> real" where
  "spec_mean xs = real_of_int (sum_list xs) / real (length xs)"

definition spec_stddev :: "int list \<Rightarrow> real" where
  "spec_stddev xs =
     sqrt (sum_list (map (\<lambda>x. (real_of_int x - spec_mean xs)\<^sup>2) xs) / real (length xs - 1))"

definition spec_coefficient_of_variation :: "int list \<Rightarrow> real" where
  "spec_coefficient_of_variation xs = spec_stddev xs / spec_mean xs * 100"

text \<open>
  The reals that are binary64 values: rounding leaves them as they are, and they are
  below the overflow threshold.
\<close>

definition is_binary64 :: "real \<Rightarrow> bool" where
  "is_binary64 r \<longleftrightarrow> round_binary64 r = r \<and> \<bar>r\<bar> < 2 ^ 1024"


text \<open>
  A check list whose first check raises, followed by a passing check, a failing check
  and one that returns \<^verbatim>\<open>None\<close>.
\<close>

definition raising_first_checks :: "(string \<times> nat check_function) list" where
  "raising_first_checks =
     [(''first'', \<lambda>n. (Inl (Exception ''timeout''), Suc n)),
      (''second'', \<lambda>n. (Inr (PyBool True), Suc n)),
      (''third'', \<lambda>n. (Inr (PyBool False), Suc n)),
      (''fourth'', \<lambda>n. (Inr PyNone, Suc n))]"

text \<open>
  The frame of a query without rows (the library answers NaN for both statistics), and
  a warehouse that answers every query, and one where every query raises.
\<close>

definition empty_frame :: dataframe where
  "empty_frame = \<lparr>frame_rows = [], daily_records_std = NaN, daily_records_mean = NaN\<rparr>"

definition sample_warehouse :: warehouse where
  "sample_warehouse =
     \<lparr>freshness_query = QueryRows [\<lparr>hours_since_update = Some 3\<rparr>],
      completeness_query =
        QueryRows [\<lparr>total_records = 100, valid_timestamps = 96, valid_filenames = 96,
                    valid_loadtimes = 96\<rparr>],
      consistency_query = Inr empty_frame,
      model_query = (\<lambda>model. QueryRows [5])\<rparr>"

definition outage_warehouse :: warehouse where
  "outage_warehouse =
     \<lparr>freshness_query = QueryRaises (Exception ''503 Service Unavailable''),
      completeness_query = QueryRaises (Exception ''503 Service Unavailable''),
      consistency_query = Inl (Exception ''503 Service Unavailable''),
      model_query = (\<lambda>model. QueryRaises (Exception ''503 Service Unavailable''))\<rparr>"

text \<open>A warehouse where one downstream table is missing.\<close>

definition partial_outage :: warehouse where
  "partial_outage =
     \<lparr>freshness_query = QueryRows [\<lparr>hours_since_update = Some 3\<rparr>],
      completeness_query =
        QueryRows [\<lparr>total_records = 100, valid_timestamps = 96, valid_filenames = 96,
                    valid_loadtimes = 96\<rparr>],
      consistency_query = Inr empty_frame,
      model_query = (\<lambda>model. if model = ''int_daily_metrics''
                               then QueryRaises (Exception ''404 Not found: Table'')
                               else QueryRows [5])\<rparr>"

text \<open>A warehouse that refuses the freshness query only.\<close>

definition freshness_outage :: warehouse where
  "freshness_outage =
     \<lparr>freshness_query = QueryRaises (Exception ''403 Access Denied''),
      completeness_query =
        QueryRows [\<lparr>total_records = 100, valid_timestamps = 96, valid_filenames = 96,
                    valid_loadtimes = 96\<rparr>],
      consistency_query = Inr empty_frame,
      model_query = (\<lambda>model. QueryRows [5])\<rparr>"

text \<open>
  Warehouses that answer the consistency and the completeness query as given. A frame
  is given by its daily counts and the two statistics the library answers for them.
\<close>

definition daily_series :: "int list \<Rightarrow> daily_row list" where
  "daily_series xs = map (\<lambda>x. \<lparr>daily_records = x, daily_files = 1, moving_avg_7d = real_of_int x\<rparr>) xs"

definition frame_of :: "int list \<Rightarrow> float64 \<Rightarrow> float64 \<Rightarrow> dataframe" where
  "frame_of xs std mean =
     \<lparr>frame_rows = daily_series xs, daily_records_std = std, daily_records_mean = mean\<rparr>"

definition consistency_warehouse :: "dataframe \<Rightarrow> warehouse" where
  "consistency_warehouse df = sample_warehouse\<lparr>consistency_query := Inr df\<rparr>"

definition completeness_warehouse :: "int \<Rightarrow> int \<Rightarrow> warehouse" where
  "completeness_warehouse n non_null =
     sample_warehouse\<lparr>completeness_query :=
       QueryRows [\<lparr>total_records = n, valid_timestamps = non_null,
                   valid_filenames = non_null, valid_loadtimes = non_null\<rparr>]\<rparr>"

text \<open>
  The exit code of the process for an outcome of the driver, and the log lines written
  before the load step and by the load step up to the end of \<open>n\<close> polls.
\<close>

definition process_exit :: "(event list \<times> exn option) option \<Rightarrow> nat option" where
  "process_exit run = map_option (\<lambda>(l, raised). exit_code raised) run"

definition setup_log :: "event list" where
  "setup_log = [LogInfo ''Iniciando proceso de carga de datos'', LogInfo ''Cliente BigQuery creado'',
                LogInfo ''Dataset creado'', LogInfo ''Tabla configurada'']"

definition load_log :: "nat \<Rightarrow> event list" where
  "load_log n = [LogInfo ''Iniciando carga de datos'',
                 LogInfo ''Este proceso puede tomar varias horas'',
                 LogInfo ''Monitoreando progreso de la carga'']
                @ replicate n (LogInfo ''Estado'')"

text \<open>
  Sample runs of the loader: a load that succeeds after two polls, and the same run with
  one step failing.
\<close>

definition loader_ok :: loader_env where
  "loader_ok =
     \<lparr>create_client = None, create_dataset = None, load_table_from_uri = None,
      job_done = (\<lambda>k. if k < 2 then Pending else Done),
      job_errors = [], get_table = None,
      validation_query =
        Inr [\<lparr>total_rows = 1000, files_processed = 1,
               earliest_load = ''2024-01-01'', latest_load = ''2024-01-02''\<rparr>],
      validation_get_table = Inr [(''fecha'', ''DATE''), (''cantidad'', ''INTEGER'')]\<rparr>"

definition loader_job_errors :: loader_env where
  "loader_job_errors = loader_ok\<lparr>job_errors := [''Too many errors encountered'']\<rparr>"

definition loader_table_lookup_fails :: loader_env where
  "loader_table_lookup_fails = loader_ok\<lparr>get_table := Some (Exception ''503 Service Unavailable'')\<rparr>"

definition loader_no_client :: loader_env where
  "loader_no_client = loader_ok\<lparr>create_client := Some (Exception ''DefaultCredentialsError'')\<rparr>"

definition loader_no_dataset :: loader_env where
  "loader_no_dataset = loader_ok\<lparr>create_dataset := Some (Exception ''403 Forbidden'')\<rparr>"

definition loader_submit_raises :: loader_env where
  "loader_submit_raises = loader_ok\<lparr>load_table_from_uri := Some (Exception ''404 Not found: URI'')\<rparr>"

definition loader_poll_raises :: loader_env where
  "loader_poll_raises =
     loader_ok\<lparr>job_done := (\<lambda>k. if k < 1 then Pending else PollRaises (Exception ''Connection aborted''))\<rparr>"

section \<open>Properties\<close>

subsection \<open>Rounding to binary64\<close>

lemma round_half_even_of_int: "round_half_even (of_int k) = k"
  by (simp add: round_half_even_def)

lemma round_half_even_bounds: "\<lfloor>x\<rfloor> \<le> round_half_even x" "round_half_even x \<le> \<lfloor>x\<rfloor> + 1"
  by (simp_all add: round_half_even_def Let_def)

lemma round_half_even_mono:
  assumes "x \<le> y"
  shows "round_half_even x \<le> round_half_even y"
proof (cases "\<lfloor>x\<rfloor> = \<lfloor>y\<rfloor>")
  case True
  then show ?thesis using assms by (auto simp add: round_half_even_def Let_def)
next
  case False
  with assms have "\<lfloor>x\<rfloor> < \<lfloor>y\<rfloor>" by (metis floor_mono order_le_less)
  then have "round_half_even x \<le> \<lfloor>y\<rfloor>" using round_half_even_bounds(2)[of x] by linarith
  then show ?thesis using round_half_even_bounds(1)[of y] by linarith
qed

lemma pow2_shift: "real_of_int (2 ^ n) * 2 powr (a - real n) = 2 powr a"
proof -
  have "real_of_int (2 ^ n) = 2 powr real n" by (simp add: powr_realpow)
  then have "real_of_int (2 ^ n) * 2 powr (a - real n) = 2 powr (real n + (a - real n))"
    by (simp only: powr_add)
  then show ?thesis by simp
qed

lemma ulp_pos: "0 < binary64_ulp x"
  by (simp add: binary64_ulp_def)

lemma exponent_upper: 
  assumes "0 < x" shows "x < 2 powr of_int (binary64_exponent x + 1)"
proof -
  have "log 2 x < of_int \<lfloor>log 2 x\<rfloor> + 1" by linarith
  also have "\<dots> \<le> of_int (binary64_exponent x + 1)"
    using assms by (simp add: binary64_exponent_def)
  finally have "log 2 x < of_int (binary64_exponent x + 1)" .
  then show ?thesis using assms by (simp add: log_less_iff)
qed

lemma exponent_lower:
  assumes "0 < x" "- 1022 \<le> \<lfloor>log 2 x\<rfloor>" shows "2 powr of_int (binary64_exponent x) \<le> x"
proof -
  have "binary64_exponent x = \<lfloor>log 2 x\<rfloor>" using assms by (simp add: binary64_exponent_def)
  moreover have "of_int \<lfloor>log 2 x\<rfloor> \<le> log 2 x" by simp
  ultimately have "of_int (binary64_exponent x) \<le> log 2 x" by simp
  then show ?thesis using assms(1) by (simp add: le_log_iff)
qed

lemma exponent_mono:
  assumes "0 < x" "x \<le> y" shows "binary64_exponent x \<le> binary64_exponent y"
proof -
  have "log 2 x \<le> log 2 y" using assms by simp
  then have "\<lfloor>log 2 x\<rfloor> \<le> \<lfloor>log 2 y\<rfloor>" by (rule floor_mono)
  then show ?thesis using assms by (simp add: binary64_exponent_def)
qed

lemma round_upper:
  assumes "0 < x" shows "round_binary64 x \<le> 2 powr of_int (binary64_exponent x + 1)"
proof -
  let ?u = "binary64_ulp x"
  have "x / ?u \<le> 2 powr of_int (binary64_exponent x + 1) / ?u"
    using exponent_upper[OF assms] ulp_pos[of x] by (simp add: divide_right_mono)
  also have "\<dots> = 2 powr 53"
    by (simp add: binary64_ulp_def powr_diff [symmetric])
  also have "\<dots> = of_int (2 ^ 53)" by (simp add: powr_realpow [symmetric])
  finally have "round_half_even (x / ?u) \<le> round_half_even (of_int (2 ^ 53))"
    by (rule round_half_even_mono)
  then have "round_half_even (x / ?u) \<le> 2 ^ 53" by (simp only: round_half_even_of_int)
  then have "of_int (round_half_even (x / ?u)) * ?u \<le> of_int (2 ^ 53) * ?u"
    using ulp_pos[of x] by (simp add: mult_right_mono)
  also have "\<dots> = 2 powr of_int (binary64_exponent x + 1)"
    using pow2_shift[of 53 "of_int (binary64_exponent x + 1)"]
    by (simp add: binary64_ulp_def algebra_simps)
  finally show ?thesis using assms by (simp add: round_binary64_def)
qed

lemma round_lower:
  assumes "0 < x" "- 1022 \<le> \<lfloor>log 2 x\<rfloor>"
  shows "2 powr of_int (binary64_exponent x) \<le> round_binary64 x"
proof -
  let ?u = "binary64_ulp x"
  have "2 powr 52 = 2 powr of_int (binary64_exponent x) / ?u"
    by (simp add: binary64_ulp_def powr_diff [symmetric])
  also have "\<dots> \<le> x / ?u"
    using exponent_lower[OF assms] ulp_pos[of x] by (simp add: divide_right_mono)
  finally have "of_int (2 ^ 52) \<le> x / ?u" by (simp add: powr_realpow [symmetric])
  then have "round_half_even (of_int (2 ^ 52)) \<le> round_half_even (x / ?u)"
    by (rule round_half_even_mono)
  then have "2 ^ 52 \<le> round_half_even (x / ?u)" by (simp only: round_half_even_of_int)
  then have "of_int (2 ^ 52) * ?u \<le> of_int (round_half_even (x / ?u)) * ?u"
    using ulp_pos[of x] by (simp add: mult_right_mono)
  moreover have "of_int (2 ^ 52) * ?u = 2 powr of_int (binary64_exponent x)"
    using pow2_shift[of 52 "of_int (binary64_exponent x)"]
    by (simp add: binary64_ulp_def)
  ultimately show ?thesis using assms by (simp add: round_binary64_def)
qed

lemma round_nonneg: assumes "0 \<le> x" shows "0 \<le> round_binary64 x"
proof (cases "x = 0")
  case True then show ?thesis by (simp add: round_binary64_def)
next
  case False
  then have "0 \<le> x / binary64_ulp x" using assms ulp_pos[of x] by simp
  then have "round_half_even 0 \<le> round_half_even (x / binary64_ulp x)"
    by (rule round_half_even_mono)
  then have "0 \<le> round_half_even (x / binary64_ulp x)" by (simp add: round_half_even_def)
  then show ?thesis using ulp_pos[of x] False by (simp add: round_binary64_def)
qed

lemma round_binary64_mono:
  assumes "0 \<le> x" "x \<le> y"
  shows "round_binary64 x \<le> round_binary64 y"
proof (cases "x = 0")
  case True
  then show ?thesis using round_nonneg[of y] assms by (simp add: round_binary64_def)
next
  case False
  then have x: "0 < x" and y: "0 < y" using assms by auto
  show ?thesis
  proof (cases "binary64_exponent x = binary64_exponent y")
    case True
    then have u: "binary64_ulp x = binary64_ulp y" by (simp add: binary64_ulp_def)
    have "x / binary64_ulp y \<le> y / binary64_ulp y"
      using assms ulp_pos[of y] by (simp add: divide_right_mono)
    then have "round_half_even (x / binary64_ulp y) \<le> round_half_even (y / binary64_ulp y)"
      by (rule round_half_even_mono)
    then show ?thesis using x y u ulp_pos[of y] by (simp add: round_binary64_def mult_right_mono)
  next
    case False
    with exponent_mono[OF x assms(2)]
    have lt: "binary64_exponent x < binary64_exponent y" by simp
    have "- 1022 \<le> binary64_exponent x" by (simp add: binary64_exponent_def)
    with lt have "- 1022 < binary64_exponent y" by simp
    then have fl: "- 1022 \<le> \<lfloor>log 2 y\<rfloor>" using y unfolding binary64_exponent_def by linarith
    have "round_binary64 x \<le> 2 powr of_int (binary64_exponent x + 1)" by (rule round_upper[OF x])
    also have "\<dots> \<le> 2 powr of_int (binary64_exponent y)" using lt by simp
    also have "\<dots> \<le> round_binary64 y" by (rule round_lower[OF y fl])
    finally show ?thesis .
  qed
qed

lemma round_binary64_eval:
  assumes "2 powr of_int e \<le> x" "x < 2 powr of_int (e + 1)" "- 1022 \<le> e"
  shows "round_binary64 x
           = of_int (round_half_even (x / 2 powr of_int (e - 52))) * 2 powr of_int (e - 52)"
proof -
  have pos: "0 < x" using assms(1) by (smt (verit) powr_gt_zero)
  have "\<lfloor>log 2 x\<rfloor> = e"
    using assms(1,2) pos by (simp add: floor_log_eq_powr_iff)
  then have "binary64_exponent x = e" using assms(3) pos by (simp add: binary64_exponent_def)
  then show ?thesis using pos by (simp add: round_binary64_def binary64_ulp_def)
qed

lemma round_half_even_eval:
  "round_half_even x =
     (if x - of_int \<lfloor>x\<rfloor> < 1 / 2 then \<lfloor>x\<rfloor>
      else if 1 / 2 < x - of_int \<lfloor>x\<rfloor> then \<lfloor>x\<rfloor> + 1
      else if even \<lfloor>x\<rfloor> then \<lfloor>x\<rfloor> else \<lfloor>x\<rfloor> + 1)"
  by (simp add: round_half_even_def Let_def)

text \<open>A value with an integer significand below \<open>2 ^ 53\<close> in its binade is not changed.\<close>

lemma round_binary64_exact:
  assumes "2 powr of_int e \<le> x" "x < 2 powr of_int (e + 1)" "- 1022 \<le> e"
      and "x / 2 powr of_int (e - 52) = of_int k"
  shows "round_binary64 x = x"
proof -
  have "round_binary64 x = of_int (round_half_even (of_int k)) * 2 powr of_int (e - 52)"
    using round_binary64_eval[OF assms(1,2,3)] assms(4) by simp
  also have "\<dots> = x / 2 powr of_int (e - 52) * 2 powr of_int (e - 52)"
    by (simp only: round_half_even_of_int assms(4))
  also have "\<dots> = x" by simp
  finally show ?thesis .
qed

lemma round_binary64_0: "round_binary64 0 = 0"
  by (simp add: round_binary64_def)

lemma round_binary64_quarter: "round_binary64 (1 / 4) = 1 / 4"
  by (rule round_binary64_exact[where e = "- 2" and k = "2 ^ 52"]) (simp_all add: powr_minus)

lemma round_binary64_half: "round_binary64 (1 / 2) = 1 / 2"
  by (rule round_binary64_exact[where e = "- 1" and k = "2 ^ 52"]) (simp_all add: powr_minus)

lemma round_binary64_three_quarters: "round_binary64 (3 / 4) = 3 / 4"
  by (rule round_binary64_exact[where e = "- 1" and k = "3 * 2 ^ 51"]) (simp_all add: powr_minus)

lemma round_binary64_1: "round_binary64 1 = 1"
  by (rule round_binary64_exact[where e = 0 and k = "2 ^ 52"]) (simp_all add: powr_minus)

lemma round_binary64_25: "round_binary64 25 = 25"
  by (rule round_binary64_exact[where e = 4 and k = "25 * 2 ^ 48"]) (simp_all add: powr_minus)

lemma round_binary64_50: "round_binary64 50 = 50"
  by (rule round_binary64_exact[where e = 5 and k = "50 * 2 ^ 47"]) (simp_all add: powr_minus)

lemma round_binary64_75: "round_binary64 75 = 75"
  by (rule round_binary64_exact[where e = 6 and k = "75 * 2 ^ 46"]) (simp_all add: powr_minus)

lemma round_binary64_100: "round_binary64 100 = 100"
  by (rule round_binary64_exact[where e = 6 and k = "100 * 2 ^ 46"]) (simp_all add: powr_minus)

text \<open>Rounded values between 0 and 100 are finite floats.\<close>

lemma binary64_bounded:
  assumes "0 \<le> x" "x \<le> 100"
  shows "binary64 x = Finite (round_binary64 x)" "0 \<le> round_binary64 x" "round_binary64 x \<le> 100"
proof -
  show lo: "0 \<le> round_binary64 x" by (rule round_nonneg[OF assms(1)])
  show hi: "round_binary64 x \<le> 100"
    using round_binary64_mono[OF assms] by (simp add: round_binary64_100)
  have "(100::real) < 2 ^ 1024" by simp
  with hi have "round_binary64 x < 2 ^ 1024" by linarith
  moreover have "- (2 ^ 1024) < (0::real)" by simp
  ultimately show "binary64 x = Finite (round_binary64 x)"
    using lo by (simp add: binary64_def Let_def)
qed

lemma truediv_fraction:
  assumes "0 \<le> a" "a \<le> b" "0 < b"
  shows "truediv a b = Inr (Finite (round_binary64 (real_of_int a / real_of_int b)))"
    and "0 \<le> round_binary64 (real_of_int a / real_of_int b)"
    and "round_binary64 (real_of_int a / real_of_int b) \<le> 1"
proof -
  let ?q = "real_of_int a / real_of_int b"
  have q: "0 \<le> ?q" "?q \<le> 1" using assms by simp_all
  then have "?q \<le> 100" by linarith
  from binary64_bounded(1,2)[OF q(1) this]
  show "truediv a b = Inr (Finite (round_binary64 ?q))" "0 \<le> round_binary64 ?q"
    using assms(3) by (simp_all add: truediv_def)
  show "round_binary64 ?q \<le> 1"
    using round_binary64_mono[OF q] by (simp add: round_binary64_1)
qed

lemma percent_of_fraction:
  assumes "0 \<le> r" "r \<le> 1"
  shows "float_mul (Finite r) (Finite 100) = Finite (round_binary64 (r * 100))"
  using binary64_bounded(1)[of "r * 100"] assms by simp

subsection \<open>The aggregator on any check list\<close>

lemma dict_set_new: "k \<notin> fst ` set d \<Longrightarrow> dict_set d k v = d @ [(k, v)]"
  by (induction d) auto

lemma map_fst_spec_results: "map fst (spec_results cs s) = map fst cs"
  by (induction cs s rule: spec_results.induct) auto

lemma length_spec_results: "length (spec_results cs s) = length cs"
  using map_fst_spec_results[of cs s] by (metis length_map)

text \<open>
  With pairwise distinct names no assignment to the dict overwrites an earlier entry, so
  the loop builds exactly the reference results. (Two checks registered under one name
  would share one entry.)
\<close>

lemma run_checks_distinct:
  "distinct (map fst d @ map fst cs) \<Longrightarrow>
     run_checks cs s d = (d @ spec_results cs s, spec_final_state cs s)"
proof (induction cs arbitrary: s d)
  case Nil
  then show ?case by simp
next
  case (Cons c cs)
  obtain n f where c: "c = (n, f)" by (cases c)
  obtain r s' where f: "f s = (r, s')" by (cases "f s")
  from Cons.prems c have new: "n \<notin> fst ` set d" by auto
  from Cons.prems c have "distinct (map fst (d @ [(n, entry_of r)]) @ map fst cs)" by auto
  from Cons.IH[OF this] show ?case using c f new by (simp add: dict_set_new)
qed

lemma count_passed_le: "count_passed d \<le> length d"
  by (simp add: count_passed_def)

lemma generate_report_distinct:
  assumes "distinct (map fst cs)" "cs \<noteq> []"
  shows "generate_report cs s write =
     ((case write of
         Some e \<Rightarrow> Inl e
       | None \<Rightarrow>
           Inr \<lparr>checks = spec_results cs s,
                overall_score =
                  float_mul (binary64 (real (count_passed (spec_results cs s)) / real (length cs)))
                    (Finite 100),
                report_summary =
                  \<lparr>total_checks = length cs,
                   passed_checks = count_passed (spec_results cs s),
                   failed_checks = length cs - count_passed (spec_results cs s)\<rparr>\<rparr>),
      spec_final_state cs s)"
proof -
  let ?p = "count_passed (spec_results cs s)"
  have run: "run_checks cs s [] = (spec_results cs s, spec_final_state cs s)"
    using run_checks_distinct[of "[]" cs s] assms(1) by simp
  have le: "?p \<le> length cs"
    using count_passed_le[of "spec_results cs s"] by (simp add: length_spec_results)
  have pos: "0 < length cs" using assms(2) by simp
  have q: "0 \<le> real ?p / real (length cs)" "real ?p / real (length cs) \<le> 100"
    using le pos by (simp_all add: field_simps)
  have div: "truediv (int ?p) (int (length cs))
               = Inr (binary64 (real ?p / real (length cs)))"
    using pos binary64_bounded(1)[OF q] by (simp add: truediv_def)
  show ?thesis
    by (simp add: generate_report_def run length_spec_results div Let_def split: option.splits)
qed

text \<open>With four checks the score is exact: \<open>k / 4\<close> and its hundredfold are floats.\<close>

lemma score_of_four:
  assumes "k \<le> (4::nat)"
  shows "float_mul (binary64 (real k / 4)) (Finite 100) = Finite (100 * real k / 4)"
proof -
  from assms have "k = 0 \<or> k = 1 \<or> k = 2 \<or> k = 3 \<or> k = 4" by arith
  then show ?thesis
    by (auto simp add: binary64_def Let_def round_binary64_0 round_binary64_quarter
          round_binary64_half round_binary64_three_quarters round_binary64_1
          round_binary64_25 round_binary64_50 round_binary64_75 round_binary64_100)
qed


lemma registered_checks_distinct:
  "distinct (map fst (registered_checks wh))" "registered_checks wh \<noteq> []"
  by (simp_all add: registered_checks_def)

subsection \<open>The completeness percentage\<close>

text \<open>
  The two roundings of \<open>(valid / total) * 100\<close> at the threshold: the fraction \<open>19 / 20\<close>
  gives exactly 95, and the smallest fraction above it with a total of at most \<open>10 ^ 14\<close>
  gives a float above 95.
\<close>

lemma fraction_anchor_low: "round_binary64 (19 / 20) = 8556839292003942 / 2 ^ 53"
proof -
  have "round_binary64 (19 / 20)
      = of_int (round_half_even ((19 / 20) / 2 powr of_int (- 1 - 52))) * 2 powr of_int (- 1 - 52)"
    by (rule round_binary64_eval) (simp_all add: powr_minus)
  also have "\<dots> = 8556839292003942 / 2 ^ 53"
    by (simp add: powr_minus round_half_even_eval)
  finally show ?thesis .
qed

lemma percent_anchor_low: "round_binary64 (8556839292003942 / 2 ^ 53 * 100) = 95"
proof -
  have "round_binary64 (8556839292003942 / 2 ^ 53 * 100)
      = of_int (round_half_even ((8556839292003942 / 2 ^ 53 * 100) / 2 powr of_int (6 - 52)))
          * 2 powr of_int (6 - 52)"
    by (rule round_binary64_eval) (simp_all add: powr_minus)
  also have "\<dots> = 95"
    by (simp add: powr_minus round_half_even_eval)
  finally show ?thesis .
qed

lemma fraction_anchor_high:
  "round_binary64 (1900000000000001 / 2000000000000000) = 8556839292003947 / 2 ^ 53"
proof -
  have "round_binary64 (1900000000000001 / 2000000000000000)
      = of_int (round_half_even ((1900000000000001 / 2000000000000000) / 2 powr of_int (- 1 - 52)))
          * 2 powr of_int (- 1 - 52)"
    by (rule round_binary64_eval) (simp_all add: powr_minus)
  also have "\<dots> = 8556839292003947 / 2 ^ 53"
    by (simp add: powr_minus round_half_even_eval)
  finally show ?thesis .
qed

lemma percent_anchor_high:
  "round_binary64 (8556839292003947 / 2 ^ 53 * 100) = 6685030696878084 / 2 ^ 46"
proof -
  have "round_binary64 (8556839292003947 / 2 ^ 53 * 100)
      = of_int (round_half_even ((8556839292003947 / 2 ^ 53 * 100) / 2 powr of_int (6 - 52)))
          * 2 powr of_int (6 - 52)"
    by (rule round_binary64_eval) (simp_all add: powr_minus)
  also have "\<dots> = 6685030696878084 / 2 ^ 46"
    by (simp add: powr_minus round_half_even_eval)
  finally show ?thesis .
qed

lemma percent_gt_95_iff:
  assumes "0 \<le> v" "v \<le> t" "0 < t" "t \<le> 10 ^ 14"
  shows "truediv v t = Inr (Finite (round_binary64 (real_of_int v / real_of_int t)))"
    and "float_less (Finite 95)
           (float_mul (Finite (round_binary64 (real_of_int v / real_of_int t))) (Finite 100))
         \<longleftrightarrow> 95 / 100 < real_of_int v / real_of_int t"
proof -
  let ?q = "real_of_int v / real_of_int t"
  let ?r = "round_binary64 ?q"
  note frac = truediv_fraction[OF assms(1,2,3)]
  show "truediv v t = Inr (Finite ?r)" by (rule frac(1))
  have q0: "0 \<le> ?q" using assms by simp
  have mul: "float_mul (Finite ?r) (Finite 100) = Finite (round_binary64 (?r * 100))"
    by (rule percent_of_fraction[OF frac(2,3)])
  have r100: "0 \<le> ?r * 100" using frac(2) by simp
  show "float_less (Finite 95) (float_mul (Finite ?r) (Finite 100)) \<longleftrightarrow> 95 / 100 < ?q"
  proof (cases "?q \<le> 19 / 20")
    case True
    have "round_binary64 ?q \<le> round_binary64 (19 / 20)"
      by (rule round_binary64_mono[OF q0 True])
    then have rhigh: "?r \<le> 8556839292003942 / 2 ^ 53" by (simp only: fraction_anchor_low)
    have m: "?r * 100 \<le> 8556839292003942 / 2 ^ 53 * 100"
      by (rule mult_right_mono[OF rhigh]) simp
    have "round_binary64 (?r * 100) \<le> round_binary64 (8556839292003942 / 2 ^ 53 * 100)"
      by (rule round_binary64_mono[OF r100 m])
    then have "round_binary64 (?r * 100) \<le> 95" by (simp only: percent_anchor_low)
    then show ?thesis using True unfolding mul by simp
  next
    case False
    then have "19 * real_of_int t < 20 * real_of_int v" using assms(3) by (simp add: field_simps)
    then have "19 * t < 20 * v" by (metis (mono_tags) of_int_less_iff of_int_mult of_int_numeral)
    then have "19 * t + 1 \<le> 20 * v" by simp
    then have "real_of_int (19 * t + 1) \<le> real_of_int (20 * v)" by (simp only: of_int_le_iff)
    then have "real_of_int (19 * t + 1) / (20 * real_of_int t)
                 \<le> real_of_int (20 * v) / (20 * real_of_int t)"
      using assms(3) by (intro divide_right_mono) simp_all
    moreover have "real_of_int (19 * t + 1) / (20 * real_of_int t)
                     = 19 / 20 + 1 / (20 * real_of_int t)"
      using assms(3) by (simp add: field_simps)
    moreover have "real_of_int (20 * v) / (20 * real_of_int t) = ?q" by simp
    ultimately have ge: "19 / 20 + 1 / (20 * real_of_int t) \<le> ?q" by simp
    have "real_of_int t \<le> real_of_int (10 ^ 14)" using assms(4) by (simp only: of_int_le_iff)
    then have t14: "real_of_int t \<le> 100000000000000" by simp
    have tpos: "0 < real_of_int t" using assms(3) by simp
    have "1 / (20 * (100000000000000 :: real)) \<le> 1 / (20 * real_of_int t)"
      using t14 tpos by (intro divide_left_mono) simp_all
    moreover have "19 / 20 + 1 / (20 * (100000000000000 :: real))
                     = 1900000000000001 / 2000000000000000" by simp
    ultimately have c: "1900000000000001 / 2000000000000000 \<le> ?q" using ge by linarith
    have a0: "0 \<le> (1900000000000001 / 2000000000000000 :: real)" by simp
    have "round_binary64 (1900000000000001 / 2000000000000000) \<le> ?r"
      by (rule round_binary64_mono[OF a0 c])
    then have rlow: "8556839292003947 / 2 ^ 53 \<le> ?r" by (simp only: fraction_anchor_high)
    have m: "8556839292003947 / 2 ^ 53 * 100 \<le> ?r * 100"
      by (rule mult_right_mono[OF rlow]) simp
    have b0: "0 \<le> (8556839292003947 / 2 ^ 53 * 100 :: real)" by simp
    have "round_binary64 (8556839292003947 / 2 ^ 53 * 100) \<le> round_binary64 (?r * 100)"
      by (rule round_binary64_mono[OF b0 m])
    then have "6685030696878084 / 2 ^ 46 \<le> round_binary64 (?r * 100)"
      by (simp only: percent_anchor_high)
    moreover have "(95::real) < 6685030696878084 / 2 ^ 46" by simp
    ultimately have "95 < round_binary64 (?r * 100)" by linarith
    then show ?thesis using False unfolding mul by simp
  qed
qed

lemma completeness_verdict_fractions:
  assumes "0 < total_records row" "total_records row \<le> 10 ^ 14"
      and "0 \<le> valid_timestamps row" "valid_timestamps row \<le> total_records row"
      and "0 \<le> valid_filenames row" "valid_filenames row \<le> total_records row"
      and "0 \<le> valid_loadtimes row" "valid_loadtimes row \<le> total_records row"
  shows "completeness_verdict row =
     Inr (PyBool (95 / 100 < real_of_int (valid_timestamps row) / real_of_int (total_records row)
                  \<and> 95 / 100 < real_of_int (valid_filenames row) / real_of_int (total_records row)))"
  using percent_gt_95_iff[OF assms(3,4,1,2)] percent_gt_95_iff[OF assms(5,6,1,2)]
    truediv_fraction(1)[OF assms(7,8,1)]
  by (simp add: completeness_verdict_def Let_def)

lemma sample_completeness_row:
  "completeness_verdict \<lparr>total_records = 100, valid_timestamps = 96, valid_filenames = 96,
                          valid_loadtimes = 96\<rparr> = Inr (PyBool True)"
  using completeness_verdict_fractions
          [of "\<lparr>total_records = 100, valid_timestamps = 96, valid_filenames = 96,
                valid_loadtimes = 96\<rparr>"]
  by simp



subsection \<open>C1: one result per check, in order, and the score\<close>



subsection \<open>C2: a raising check does not stop the checks after it\<close>

lemma spec_results_nth:
  "j < length cs \<Longrightarrow>
     spec_results cs s ! j
       = (fst (cs ! j), entry_of (fst (snd (cs ! j) (spec_call_states cs s ! j))))"
proof (induction cs s arbitrary: j rule: spec_results.induct)
  case (1 s)
  then show ?case by simp
next
  case (2 check_name check_function rest s)
  then show ?case by (cases j) simp_all
qed

text \<open>
  Claim C2. When the check at position \<open>k\<close> of a registered list (distinct names) raises,
  the aggregator catches the exception: the run still returns a report with all N
  results and the entry at \<open>k\<close> has status \<open>error\<close> with the exception's message. Every
  check after \<open>k\<close> is evaluated, in the state its predecessors left, and its own result
  is what is recorded at its position: \<open>passed\<close> when it returns a true value, \<open>failed\<close>
  when it returns a false one, \<open>error\<close> with its message when it raises too. The final
  state is the one after the last check.
\<close>

theorem exception_does_not_stop_later_checks:
  assumes "distinct (map fst registered)"
      and "k < length registered"
      and "fst (snd (registered ! k) (spec_call_states registered s ! k)) = Inl (Exception msg)"
  shows "\<exists>rep. generate_report registered s None = (Inr rep, spec_final_state registered s)
           \<and> length (checks rep) = length registered
           \<and> checks rep ! k = (fst (registered ! k), \<lparr>status = ''error'', error = Some msg\<rparr>)
           \<and> (\<forall>j. k < j \<and> j < length registered \<longrightarrow>
                 (\<forall>v. fst (snd (registered ! j) (spec_call_states registered s ! j)) = Inr v \<longrightarrow>
                    checks rep ! j
                      = (fst (registered ! j),
                         \<lparr>status = (if truthy v then ''passed'' else ''failed''),
                          error = None\<rparr>))
               \<and> (\<forall>m. fst (snd (registered ! j) (spec_call_states registered s ! j))
                          = Inl (Exception m) \<longrightarrow>
                    checks rep ! j
                      = (fst (registered ! j), \<lparr>status = ''error'', error = Some m\<rparr>)))"
proof -
  from assms(2) have ne: "registered \<noteq> []" by auto
  define rep where "rep = \<lparr>checks = spec_results registered s,
      overall_score =
        float_mul (binary64 (real (count_passed (spec_results registered s))
                             / real (length registered))) (Finite 100),
      report_summary =
        \<lparr>total_checks = length registered,
         passed_checks = count_passed (spec_results registered s),
         failed_checks = length registered - count_passed (spec_results registered s)\<rparr>\<rparr>"
  have g: "generate_report registered s None = (Inr rep, spec_final_state registered s)"
    by (simp add: generate_report_distinct[OF assms(1) ne] rep_def)
  have c: "checks rep = spec_results registered s" by (simp add: rep_def)
  have nth: "checks rep ! j
               = (fst (registered ! j),
                  entry_of (fst (snd (registered ! j) (spec_call_states registered s ! j))))"
    if "j < length registered" for j
    unfolding c using that by (rule spec_results_nth)
  have at_k: "checks rep ! k = (fst (registered ! k), \<lparr>status = ''error'', error = Some msg\<rparr>)"
    using nth[OF assms(2)] assms(3) by simp
  have later: "\<forall>j. k < j \<and> j < length registered \<longrightarrow>
                 (\<forall>v. fst (snd (registered ! j) (spec_call_states registered s ! j)) = Inr v \<longrightarrow>
                    checks rep ! j
                      = (fst (registered ! j),
                         \<lparr>status = (if truthy v then ''passed'' else ''failed''),
                          error = None\<rparr>))
               \<and> (\<forall>m. fst (snd (registered ! j) (spec_call_states registered s ! j))
                          = Inl (Exception m) \<longrightarrow>
                    checks rep ! j
                      = (fst (registered ! j), \<lparr>status = ''error'', error = Some m\<rparr>))"
    using nth by simp
  have len: "length (checks rep) = length registered" by (simp add: c length_spec_results)
  from g len at_k later show ?thesis by (intro exI[of _ rep] conjI)
qed

text \<open>
  The theorem at the list whose first check raises: the second is called and recorded as
  \<open>passed\<close>, the third and the fourth as \<open>failed\<close>, and all four checks have run.
\<close>

theorem exception_does_not_stop_later_checks_witness:
  "distinct (map fst raising_first_checks) \<and> (0::nat) < length raising_first_checks
   \<and> fst (snd (raising_first_checks ! 0) (spec_call_states raising_first_checks 0 ! 0))
       = Inl (Exception ''timeout'')
   \<and> (\<exists>rep. generate_report raising_first_checks 0 None = (Inr rep, 4)
         \<and> checks rep ! 0 = (''first'', \<lparr>status = ''error'', error = Some ''timeout''\<rparr>)
         \<and> checks rep ! 1 = (''second'', \<lparr>status = ''passed'', error = None\<rparr>)
         \<and> checks rep ! 2 = (''third'', \<lparr>status = ''failed'', error = None\<rparr>)
         \<and> checks rep ! 3 = (''fourth'', \<lparr>status = ''failed'', error = None\<rparr>))"
proof -
  have h: "distinct (map fst raising_first_checks)" "(0::nat) < length raising_first_checks"
    "fst (snd (raising_first_checks ! 0) (spec_call_states raising_first_checks 0 ! 0))
       = Inl (Exception ''timeout'')"
    by (simp_all add: raising_first_checks_def)
  have f: "spec_final_state raising_first_checks 0 = 4" by (simp add: raising_first_checks_def)
  have len: "length raising_first_checks = 4" by (simp add: raising_first_checks_def)
  have n: "fst (raising_first_checks ! 0) = ''first''" "fst (raising_first_checks ! 1) = ''second''"
    "fst (raising_first_checks ! 2) = ''third''" "fst (raising_first_checks ! 3) = ''fourth''"
    by (simp_all add: raising_first_checks_def numeral_2_eq_2 numeral_3_eq_3)
  have v: "fst (snd (raising_first_checks ! 1) (spec_call_states raising_first_checks 0 ! 1))
             = Inr (PyBool True)"
    "fst (snd (raising_first_checks ! 2) (spec_call_states raising_first_checks 0 ! 2))
             = Inr (PyBool False)"
    "fst (snd (raising_first_checks ! 3) (spec_call_states raising_first_checks 0 ! 3))
             = Inr PyNone"
    by (simp_all add: raising_first_checks_def numeral_2_eq_2 numeral_3_eq_3)
  from exception_does_not_stop_later_checks[OF h]
  obtain rep where r:
    "generate_report raising_first_checks 0 None = (Inr rep, spec_final_state raising_first_checks 0)"
    and r0: "checks rep ! 0 = (fst (raising_first_checks ! 0), \<lparr>status = ''error'', error = Some ''timeout''\<rparr>)"
    and r3: "\<forall>j. 0 < j \<and> j < length raising_first_checks \<longrightarrow>
       (\<forall>v. fst (snd (raising_first_checks ! j) (spec_call_states raising_first_checks 0 ! j)) = Inr v \<longrightarrow>
          checks rep ! j
            = (fst (raising_first_checks ! j),
               \<lparr>status = (if truthy v then ''passed'' else ''failed''), error = None\<rparr>))
       \<and> (\<forall>m. fst (snd (raising_first_checks ! j) (spec_call_states raising_first_checks 0 ! j))
                          = Inl (Exception m) \<longrightarrow>
                    checks rep ! j
                      = (fst (raising_first_checks ! j), \<lparr>status = ''error'', error = Some m\<rparr>))"
    by (elim exE conjE)
  have later: "checks rep ! j
            = (fst (raising_first_checks ! j),
               \<lparr>status = (if truthy w then ''passed'' else ''failed''), error = None\<rparr>)"
    if "0 < j" "j < 4"
       "fst (snd (raising_first_checks ! j) (spec_call_states raising_first_checks 0 ! j)) = Inr w"
    for j w
  proof -
    from that(1,2) len have jj: "0 < j \<and> j < length raising_first_checks" by simp
    from r3[THEN spec, of j] jj that(3) show ?thesis by simp
  qed
  have 1: "checks rep ! 1 = (''second'', \<lparr>status = ''passed'', error = None\<rparr>)"
    using later[OF _ _ v(1)] n by simp
  have 2: "checks rep ! 2 = (''third'', \<lparr>status = ''failed'', error = None\<rparr>)"
    using later[OF _ _ v(2)] n by simp
  have 3: "checks rep ! 3 = (''fourth'', \<lparr>status = ''failed'', error = None\<rparr>)"
    using later[OF _ _ v(3)] n by simp
  show ?thesis using h r r0 f n 1 2 3 by simp
qed

subsection \<open>C9: the downstream-table check\<close>

lemma dict_set_twice: "dict_set (dict_set d k a) k b = dict_set d k b"
  by (induction d) auto

lemma foldl_dict_set:
  "foldl (\<lambda>res c. dict_set res k c) (dict_set d k a) rows = dict_set d k (last (a # rows))"
  by (induction rows arbitrary: a) (simp_all add: dict_set_twice)

lemma check_model_reported:
  "check_model query d m =
     (case reported_count (query m) of None \<Rightarrow> d | Some c \<Rightarrow> dict_set d m c)"
proof (cases "query m")
  case (QueryRaises e)
  then show ?thesis by (simp add: check_model_def reported_count_def)
next
  case (QueryRows rows)
  show ?thesis
  proof (cases rows)
    case Nil
    with QueryRows show ?thesis by (simp add: check_model_def reported_count_def)
  next
    case (Cons r rs)
    with QueryRows show ?thesis
      using foldl_dict_set[of m d r rs] by (simp add: check_model_def reported_count_def)
  qed
qed

lemma foldl_check_model:
  "distinct ms \<Longrightarrow> fst ` set d \<inter> set ms = {} \<Longrightarrow>
     foldl (check_model query) d ms
       = d @ concat (map (\<lambda>m. case reported_count (query m) of
                                   None \<Rightarrow> [] | Some c \<Rightarrow> [(m, c)]) ms)"
proof (induction ms arbitrary: d)
  case Nil
  then show ?case by simp
next
  case (Cons m ms)
  have new: "m \<notin> fst ` set d" using Cons.prems by auto
  show ?case
  proof (cases "reported_count (query m)")
    case None
    then have "check_model query d m = d" by (simp add: check_model_reported)
    moreover have "fst ` set d \<inter> set ms = {}" using Cons.prems by auto
    ultimately show ?thesis using Cons.IH[of d] Cons.prems None by simp
  next
    case (Some c)
    then have cm: "check_model query d m = d @ [(m, c)]"
      by (simp add: check_model_reported dict_set_new[OF new])
    have "fst ` set (d @ [(m, c)]) \<inter> set ms = {}" using Cons.prems by auto
    then show ?thesis using Cons.IH[of "d @ [(m, c)]"] Cons.prems Some cm by simp
  qed
qed

lemma model_counts_reported:
  "model_counts query
     = concat (map (\<lambda>m. case reported_count (query m) of
                            None \<Rightarrow> [] | Some c \<Rightarrow> [(m, c)]) models_to_check)"
  unfolding model_counts_def
  using foldl_check_model[of models_to_check "[]" query]
  by (simp add: models_to_check_def)

lemma check_dbt_models_verdict:
  "fst (check_dbt_models wh l)
     = Inr (PyBool (list_all (\<lambda>m. case reported_count (model_query wh m) of
                                      None \<Rightarrow> True | Some c \<Rightarrow> c > 0) models_to_check))"
  by (simp add: check_dbt_models_def Let_def model_counts_reported models_to_check_def
           split: option.splits)

lemma check_dbt_models_raises:
  assumes "m \<in> set models_to_check" and "model_query wh m = QueryRaises e"
  shows "fst (check_dbt_models wh l) = Inr (PyBool False)"
proof -
  from assms(2) have "reported_count (model_query wh m) = Some 0"
    by (simp add: reported_count_def)
  then have "\<not> (case reported_count (model_query wh m) of None \<Rightarrow> True | Some c \<Rightarrow> c > 0)"
    by simp
  with assms(1) have "\<not> list_all (\<lambda>m. case reported_count (model_query wh m) of
                                      None \<Rightarrow> True | Some c \<Rightarrow> c > 0) models_to_check"
    unfolding list_all_iff by blast
  then show ?thesis by (simp add: check_dbt_models_verdict)
qed

text \<open>
  Claim C9. The downstream-table check always yields Passed or Failed, never an error.
  With every answered count query carrying a row (as \<^verbatim>\<open>COUNT(*)\<close> does), it yields
  Passed exactly when each of the three named tables reports a strictly positive row
  count, where a table whose query raises reports zero rows. So a query failure for any
  single table makes the check yield Failed.
\<close>

theorem dbt_models_passed_iff_all_positive:
  "(fst (check_dbt_models wh l) = Inr (PyBool True)
      \<or> fst (check_dbt_models wh l) = Inr (PyBool False))
   \<and> ((\<forall>m \<in> set models_to_check. model_query wh m \<noteq> QueryRows []) \<longrightarrow>
        (fst (check_dbt_models wh l) = Inr (PyBool True)
           \<longleftrightarrow> (\<forall>m \<in> set models_to_check.
                  \<exists>c. reported_count (model_query wh m) = Some c \<and> c > 0)))
   \<and> ((\<exists>m \<in> set models_to_check. \<exists>e. model_query wh m = QueryRaises e) \<longrightarrow>
        fst (check_dbt_models wh l) = Inr (PyBool False))"
proof (intro conjI impI)
  show "fst (check_dbt_models wh l) = Inr (PyBool True)
      \<or> fst (check_dbt_models wh l) = Inr (PyBool False)"
    by (simp add: check_dbt_models_verdict)
next
  assume rows: "\<forall>m \<in> set models_to_check. model_query wh m \<noteq> QueryRows []"
  have some: "reported_count (model_query wh m) \<noteq> None" if "m \<in> set models_to_check" for m
    using rows that by (cases "model_query wh m") (auto simp: reported_count_def)
  have "list_all (\<lambda>m. case reported_count (model_query wh m) of
                         None \<Rightarrow> True | Some c \<Rightarrow> c > 0) models_to_check
        \<longleftrightarrow> (\<forall>m \<in> set models_to_check.
                  \<exists>c. reported_count (model_query wh m) = Some c \<and> c > 0)"
    unfolding list_all_iff using some by (fastforce split: option.splits)
  then show "fst (check_dbt_models wh l) = Inr (PyBool True)
           \<longleftrightarrow> (\<forall>m \<in> set models_to_check.
                  \<exists>c. reported_count (model_query wh m) = Some c \<and> c > 0)"
    by (simp add: check_dbt_models_verdict)
next
  assume "\<exists>m \<in> set models_to_check. \<exists>e. model_query wh m = QueryRaises e"
  then show "fst (check_dbt_models wh l) = Inr (PyBool False)"
    using check_dbt_models_raises by blast
qed

text \<open>
  The theorem at the warehouse with one missing table (Failed) and at the sample
  warehouse, where every table reports 5 rows (Passed).
\<close>

theorem dbt_models_passed_iff_all_positive_witness:
  "list_all (\<lambda>m. model_query partial_outage m \<noteq> QueryRows []) models_to_check
   \<and> list_ex (\<lambda>m. model_query partial_outage m = QueryRaises (Exception ''404 Not found: Table''))
        models_to_check
   \<and> fst (check_dbt_models partial_outage []) = Inr (PyBool False)
   \<and> list_all (\<lambda>m. model_query sample_warehouse m \<noteq> QueryRows []) models_to_check
   \<and> list_all (\<lambda>m. reported_count (model_query sample_warehouse m) = Some 5) models_to_check
   \<and> fst (check_dbt_models sample_warehouse []) = Inr (PyBool True)"
proof -
  have p: "\<forall>m \<in> set models_to_check. model_query partial_outage m \<noteq> QueryRows []"
    by (simp add: partial_outage_def models_to_check_def)
  have e: "\<exists>m \<in> set models_to_check. \<exists>e. model_query partial_outage m = QueryRaises e"
    by (simp add: partial_outage_def models_to_check_def)
  have e': "list_ex (\<lambda>m. model_query partial_outage m = QueryRaises (Exception ''404 Not found: Table''))
        models_to_check"
    by (simp add: partial_outage_def models_to_check_def)
  have s: "\<forall>m \<in> set models_to_check. model_query sample_warehouse m \<noteq> QueryRows []"
    by (simp add: sample_warehouse_def models_to_check_def)
  have c: "\<forall>m \<in> set models_to_check. reported_count (model_query sample_warehouse m) = Some 5"
    by (simp add: sample_warehouse_def models_to_check_def reported_count_def)
  from dbt_models_passed_iff_all_positive[of partial_outage "[]"] e
  have 1: "fst (check_dbt_models partial_outage []) = Inr (PyBool False)" by blast
  from dbt_models_passed_iff_all_positive[of sample_warehouse "[]"] s c
  have 2: "fst (check_dbt_models sample_warehouse []) = Inr (PyBool True)" by simp
  show ?thesis using p e' s c 1 2 by (simp add: list_all_iff)
qed

subsection \<open>C10: the built-in checks never raise\<close>

lemma except_return_False_Inr: "\<exists>v. except_return_False body = Inr v"
  by (cases body) (simp_all add: except_return_False_def)

lemma check_data_freshness_returns: "\<exists>v. fst (check_data_freshness wh l) = Inr v"
  by (simp add: check_data_freshness_def except_return_False_Inr)

lemma check_data_completeness_returns: "\<exists>v. fst (check_data_completeness wh l) = Inr v"
  by (simp add: check_data_completeness_def except_return_False_Inr)

lemma check_data_consistency_returns: "\<exists>v. fst (check_data_consistency wh l) = Inr v"
  by (simp add: check_data_consistency_def except_return_False_Inr)

lemma check_dbt_models_returns: "\<exists>v. fst (check_dbt_models wh l) = Inr v"
  by (simp add: check_dbt_models_def Let_def)

lemma entry_of_Inr_status:
  "status (entry_of (Inr v)) = ''passed'' \<or> status (entry_of (Inr v)) = ''failed''"
  "error (entry_of (Inr v)) = None"
  by simp_all

lemma registered_results:
  "\<exists>v1 v2 v3 v4. spec_results (registered_checks wh) [] =
     [(''data_freshness'', entry_of (Inr v1)), (''data_completeness'', entry_of (Inr v2)),
      (''data_consistency'', entry_of (Inr v3)), (''dbt_models'', entry_of (Inr v4))]"
proof -
  let ?l1 = "snd (check_data_freshness wh [])"
  let ?l2 = "snd (check_data_completeness wh ?l1)"
  let ?l3 = "snd (check_data_consistency wh ?l2)"
  obtain v1 where 1: "fst (check_data_freshness wh []) = Inr v1"
    using check_data_freshness_returns by blast
  obtain v2 where 2: "fst (check_data_completeness wh ?l1) = Inr v2"
    using check_data_completeness_returns by blast
  obtain v3 where 3: "fst (check_data_consistency wh ?l2) = Inr v3"
    using check_data_consistency_returns by blast
  obtain v4 where 4: "fst (check_dbt_models wh ?l3) = Inr v4"
    using check_dbt_models_returns by blast
  have "spec_results (registered_checks wh) [] =
     [(''data_freshness'', entry_of (Inr v1)), (''data_completeness'', entry_of (Inr v2)),
      (''data_consistency'', entry_of (Inr v3)), (''dbt_models'', entry_of (Inr v4))]"
    by (simp add: registered_checks_def 1 2 3 4)
  then show ?thesis by blast
qed

lemma outage_results:
  "spec_results (registered_checks outage_warehouse) [] =
      [(''data_freshness'', \<lparr>status = ''failed'', error = None\<rparr>),
       (''data_completeness'', \<lparr>status = ''failed'', error = None\<rparr>),
       (''data_consistency'', \<lparr>status = ''failed'', error = None\<rparr>),
       (''dbt_models'', \<lparr>status = ''failed'', error = None\<rparr>)]"
  by (simp add: registered_checks_def outage_warehouse_def check_data_freshness_def
        check_data_freshness_body_def check_data_completeness_def
        check_data_completeness_body_def
        check_data_consistency_def check_data_consistency_body_def check_dbt_models_def
        model_counts_def models_to_check_def check_model_def except_return_False_def Let_def)

text \<open>
  Claim C10. Each of the four built-in checks returns a value, whatever the warehouse
  answers and whatever raises inside it: the handler of the check turns the exception
  into \<open>False\<close>. So in a report of the four built-in checks no entry has status \<open>error\<close>
  or an error message, every status is \<open>passed\<close> or \<open>failed\<close>, and \<open>overall_score\<close> is one
  of 0, 25, 50, 75, 100.
\<close>

theorem builtin_checks_never_raise:
  "(\<exists>v. fst (check_data_freshness wh l) = Inr v)
   \<and> (\<exists>v. fst (check_data_completeness wh l) = Inr v)
   \<and> (\<exists>v. fst (check_data_consistency wh l) = Inr v)
   \<and> (\<exists>v. fst (check_dbt_models wh l) = Inr v)
   \<and> (\<exists>rep. fst (generate_quality_report wh None) = Inr rep
         \<and> list_all (\<lambda>c. (status (snd c) = ''passed'' \<or> status (snd c) = ''failed'')
                           \<and> error (snd c) = None) (checks rep)
         \<and> overall_score rep \<in> {Finite 0, Finite 25, Finite 50, Finite 75, Finite 100})"
proof -
  obtain v1 v2 v3 v4 where r: "spec_results (registered_checks wh) [] =
     [(''data_freshness'', entry_of (Inr v1)), (''data_completeness'', entry_of (Inr v2)),
      (''data_consistency'', entry_of (Inr v3)), (''dbt_models'', entry_of (Inr v4))]"
    using registered_results by blast
  let ?p = "count_passed (spec_results (registered_checks wh) [])"
  have len: "length (registered_checks wh) = 4" by (simp add: registered_checks_def)
  have le: "?p \<le> 4"
    using count_passed_le[of "spec_results (registered_checks wh) []"]
    by (simp add: length_spec_results len)
  then have "?p = 0 \<or> ?p = 1 \<or> ?p = 2 \<or> ?p = 3 \<or> ?p = 4" by arith
  then have "Finite (100 * real ?p / 4)
               \<in> {Finite 0, Finite 25, Finite 50, Finite 75, Finite 100}"
    by auto
  then have sc: "float_mul (binary64 (real ?p / 4)) (Finite 100)
                  \<in> {Finite 0, Finite 25, Finite 50, Finite 75, Finite 100}"
    by (simp only: score_of_four[OF le])
  have st: "list_all (\<lambda>c. (status (snd c) = ''passed'' \<or> status (snd c) = ''failed'')
                           \<and> error (snd c) = None) (spec_results (registered_checks wh) [])"
    unfolding r by simp
  have rep: "\<exists>rep. fst (generate_quality_report wh None) = Inr rep
         \<and> list_all (\<lambda>c. (status (snd c) = ''passed'' \<or> status (snd c) = ''failed'')
                           \<and> error (snd c) = None) (checks rep)
         \<and> overall_score rep \<in> {Finite 0, Finite 25, Finite 50, Finite 75, Finite 100}"
    using sc st
    by (simp add: generate_quality_report_def generate_report_distinct
          registered_checks_distinct len)
  show ?thesis
    using rep check_data_freshness_returns check_data_completeness_returns
      check_data_consistency_returns check_dbt_models_returns by blast
qed

text \<open>The theorem at the warehouse where every query raises: four \<open>failed\<close>, score 0.\<close>

theorem builtin_checks_never_raise_witness:
  "fst (check_data_freshness outage_warehouse []) = Inr (PyBool False)
   \<and> fst (generate_quality_report outage_warehouse None)
       = Inr \<lparr>checks = [(''data_freshness'', \<lparr>status = ''failed'', error = None\<rparr>),
                        (''data_completeness'', \<lparr>status = ''failed'', error = None\<rparr>),
                        (''data_consistency'', \<lparr>status = ''failed'', error = None\<rparr>),
                        (''dbt_models'', \<lparr>status = ''failed'', error = None\<rparr>)],
              overall_score = Finite 0,
              report_summary = \<lparr>total_checks = 4, passed_checks = 0, failed_checks = 4\<rparr>\<rparr>"
proof -
  have a: "fst (check_data_freshness outage_warehouse []) = Inr (PyBool False)"
    by (simp add: check_data_freshness_def check_data_freshness_body_def
          outage_warehouse_def except_return_False_def)
  have b: "fst (generate_quality_report outage_warehouse None)
       = Inr \<lparr>checks = spec_results (registered_checks outage_warehouse) [],
              overall_score = Finite 0,
              report_summary = \<lparr>total_checks = 4, passed_checks = 0, failed_checks = 4\<rparr>\<rparr>"
    using score_of_four[of 0]
    by (simp add: generate_quality_report_def generate_report_distinct
          registered_checks_distinct outage_results count_passed_def)
       (simp add: registered_checks_def)
  show ?thesis
    using builtin_checks_never_raise[of outage_warehouse "[]"] a b
    by (simp add: outage_results)
qed

subsection \<open>C3: an exception inside a built-in check\<close>

lemma registered_results_explicit:
  "spec_results (registered_checks wh) [] =
     [(''data_freshness'',
         entry_of (except_return_False (check_data_freshness_body (freshness_query wh)))),
      (''data_completeness'',
         entry_of (except_return_False (check_data_completeness_body (completeness_query wh)))),
      (''data_consistency'',
         entry_of (except_return_False (check_data_consistency_body (consistency_query wh)))),
      (''dbt_models'', entry_of (fst (check_dbt_models wh [])))]"
  by (simp add: registered_checks_def check_data_freshness_def check_data_completeness_def
        check_data_consistency_def check_dbt_models_def Let_def)

lemma generate_quality_report_written:
  "fst (generate_quality_report wh None)
     = Inr \<lparr>checks = spec_results (registered_checks wh) [],
            overall_score =
              float_mul (binary64 (real (count_passed (spec_results (registered_checks wh) [])) / 4))
                (Finite 100),
            report_summary =
              \<lparr>total_checks = 4,
               passed_checks = count_passed (spec_results (registered_checks wh) []),
               failed_checks = 4 - count_passed (spec_results (registered_checks wh) [])\<rparr>\<rparr>"
proof -
  have "length (registered_checks wh) = 4" by (simp add: registered_checks_def)
  then show ?thesis
    by (simp add: generate_quality_report_def generate_report_distinct registered_checks_distinct)
qed

text \<open>
  Claim C3 says that a registered check whose evaluation meets an exception is recorded
  with status \<open>error\<close> and the exception's message. The built-in checks handle the
  exception themselves and return \<open>False\<close>: with the freshness query refused, the entry
  of \<open>data_freshness\<close> is \<open>failed\<close> and carries no message.
\<close>

theorem query_exception_status_counterexample:
  "freshness_query freshness_outage = QueryRaises (Exception ''403 Access Denied'')
   \<and> fst (generate_quality_report freshness_outage None)
       = Inr \<lparr>checks = [(''data_freshness'', \<lparr>status = ''failed'', error = None\<rparr>),
                        (''data_completeness'', \<lparr>status = ''passed'', error = None\<rparr>),
                        (''data_consistency'', \<lparr>status = ''failed'', error = None\<rparr>),
                        (''dbt_models'', \<lparr>status = ''passed'', error = None\<rparr>)],
              overall_score = Finite 50,
              report_summary = \<lparr>total_checks = 4, passed_checks = 2, failed_checks = 2\<rparr>\<rparr>"
proof -
  have q: "spec_results (registered_checks freshness_outage) [] =
      [(''data_freshness'', \<lparr>status = ''failed'', error = None\<rparr>),
       (''data_completeness'', \<lparr>status = ''passed'', error = None\<rparr>),
       (''data_consistency'', \<lparr>status = ''failed'', error = None\<rparr>),
       (''dbt_models'', \<lparr>status = ''passed'', error = None\<rparr>)]"
    by (simp add: registered_checks_def freshness_outage_def check_data_freshness_def
          check_data_freshness_body_def check_data_completeness_def
          check_data_completeness_body_def sample_completeness_row
          check_data_consistency_def check_data_consistency_body_def empty_frame_def
          check_dbt_models_def model_counts_def models_to_check_def check_model_def
          except_return_False_def Let_def)
  have f: "freshness_query freshness_outage = QueryRaises (Exception ''403 Access Denied'')"
    by (simp add: freshness_outage_def)
  have "count_passed (spec_results (registered_checks freshness_outage) []) = 2"
    by (simp add: q count_passed_def)
  then show ?thesis
    using score_of_four[of 2] by (simp add: f generate_quality_report_written q)
qed

text \<open>
  Claim C3 as amended. A run that writes its file returns a report in which each
  built-in check whose evaluation meets an exception has status \<open>failed\<close> and no error
  message: freshness, completeness and consistency when their body raises (the query, the
  division by a zero total, the format of a NULL), and the downstream-table check when
  the query of one of its tables raises.
\<close>

theorem query_exception_recorded_as_failed:
  "\<exists>rep. fst (generate_quality_report wh None) = Inr rep
     \<and> (check_data_freshness_body (freshness_query wh) = Inl e \<longrightarrow>
          map_of (checks rep) ''data_freshness'' = Some \<lparr>status = ''failed'', error = None\<rparr>)
     \<and> (check_data_completeness_body (completeness_query wh) = Inl e \<longrightarrow>
          map_of (checks rep) ''data_completeness'' = Some \<lparr>status = ''failed'', error = None\<rparr>)
     \<and> (check_data_consistency_body (consistency_query wh) = Inl e \<longrightarrow>
          map_of (checks rep) ''data_consistency'' = Some \<lparr>status = ''failed'', error = None\<rparr>)
     \<and> ((\<exists>m \<in> set models_to_check. model_query wh m = QueryRaises e) \<longrightarrow>
          map_of (checks rep) ''dbt_models'' = Some \<lparr>status = ''failed'', error = None\<rparr>)"
proof -
  have 4: "\<exists>m \<in> set models_to_check. model_query wh m = QueryRaises e \<Longrightarrow>
      fst (check_dbt_models wh []) = Inr (PyBool False)"
    using check_dbt_models_raises by blast
  show ?thesis
    using 4
    by (simp add: generate_quality_report_written registered_results_explicit
          except_return_False_def)
qed

text \<open>The theorem at the warehouse where every query raises.\<close>

theorem query_exception_recorded_as_failed_witness:
  "check_data_freshness_body (freshness_query outage_warehouse)
     = Inl (Exception ''503 Service Unavailable'')
   \<and> check_data_completeness_body (completeness_query outage_warehouse)
     = Inl (Exception ''503 Service Unavailable'')
   \<and> check_data_consistency_body (consistency_query outage_warehouse)
     = Inl (Exception ''503 Service Unavailable'')
   \<and> list_ex (\<lambda>m. model_query outage_warehouse m
                      = QueryRaises (Exception ''503 Service Unavailable'')) models_to_check
   \<and> (\<exists>rep. fst (generate_quality_report outage_warehouse None) = Inr rep
         \<and> map_of (checks rep) ''data_freshness'' = Some \<lparr>status = ''failed'', error = None\<rparr>
         \<and> map_of (checks rep) ''data_completeness'' = Some \<lparr>status = ''failed'', error = None\<rparr>
         \<and> map_of (checks rep) ''data_consistency'' = Some \<lparr>status = ''failed'', error = None\<rparr>
         \<and> map_of (checks rep) ''dbt_models'' = Some \<lparr>status = ''failed'', error = None\<rparr>)"
proof -
  have h: "check_data_freshness_body (freshness_query outage_warehouse)
             = Inl (Exception ''503 Service Unavailable'')"
    "check_data_completeness_body (completeness_query outage_warehouse)
       = Inl (Exception ''503 Service Unavailable'')"
    "check_data_consistency_body (consistency_query outage_warehouse)
       = Inl (Exception ''503 Service Unavailable'')"
    "\<exists>m \<in> set models_to_check.
        model_query outage_warehouse m = QueryRaises (Exception ''503 Service Unavailable'')"
    by (auto simp add: outage_warehouse_def models_to_check_def check_data_freshness_body_def
          check_data_completeness_body_def check_data_consistency_body_def)
  from h(4) have h': "list_ex (\<lambda>m. model_query outage_warehouse m
                      = QueryRaises (Exception ''503 Service Unavailable'')) models_to_check"
    by (simp add: list_ex_iff)
  show ?thesis
    using query_exception_recorded_as_failed
            [of outage_warehouse "Exception ''503 Service Unavailable''"] h h'
    by simp
qed

subsection \<open>C4: the report and the file write\<close>

text \<open>
  Claim C4 says that the report is returned whether or not the file can be written, and
  that a write failure reaches the caller. Both cannot happen in one call: when the
  write raises, the exception leaves the function and the caller gets no report.
\<close>

theorem report_lost_on_write_failure_counterexample:
  "fst (generate_quality_report sample_warehouse (Some (Exception ''No space left on device'')))
     = Inl (Exception ''No space left on device'')"
  by (simp add: generate_quality_report_def generate_report_distinct registered_checks_distinct)

text \<open>
  Claim C4 as amended. When the file is written the function returns the assembled
  report, with the results of the four checks. When the write fails, the exception is
  propagated to the caller and no report is returned; the checks have been evaluated
  all the same (the queries issued are those of a successful run).
\<close>

theorem report_returned_only_when_written:
  "(\<exists>rep. fst (generate_quality_report wh None) = Inr rep
      \<and> checks rep = spec_results (registered_checks wh) [])
   \<and> fst (generate_quality_report wh (Some e)) = Inl e
   \<and> snd (generate_quality_report wh (Some e)) = snd (generate_quality_report wh None)"
proof -
  have "length (registered_checks wh) = 4" by (simp add: registered_checks_def)
  then show ?thesis
    by (simp add: generate_quality_report_def generate_report_distinct registered_checks_distinct)
qed

text \<open>The theorem at a failing write: the exception comes back, after all six queries.\<close>

theorem report_returned_only_when_written_witness:
  "fst (generate_quality_report outage_warehouse (Some (Exception ''Permission denied'')))
     = Inl (Exception ''Permission denied'')
   \<and> snd (generate_quality_report outage_warehouse (Some (Exception ''Permission denied'')))
     = [''cdo_challenge'', ''cdo_challenge'', ''cdo_challenge'', ''stg_cdo_challenge'',
        ''int_daily_metrics'', ''mart_business_insights'']"
proof -
  have "snd (generate_quality_report outage_warehouse None)
     = [''cdo_challenge'', ''cdo_challenge'', ''cdo_challenge'', ''stg_cdo_challenge'',
        ''int_daily_metrics'', ''mart_business_insights'']"
    by (simp add: generate_quality_report_def generate_report_distinct registered_checks_distinct)
       (simp add: registered_checks_def check_data_freshness_def check_data_completeness_def
          check_data_consistency_def check_dbt_models_def Let_def models_to_check_def)
  then show ?thesis
    using report_returned_only_when_written[of outage_warehouse "Exception ''Permission denied''"]
    by simp
qed

subsection \<open>C6: the consistency check\<close>

lemma binary64_nonneg:
  assumes "0 \<le> x"
  shows "binary64 x = (if 2 ^ 1024 \<le> round_binary64 x then PInf else Finite (round_binary64 x))"
proof -
  have "- (2 ^ 1024) < (0::real)" by simp
  with round_nonneg[OF assms] have "\<not> round_binary64 x \<le> - (2 ^ 1024)" by linarith
  then show ?thesis by (simp add: binary64_def Let_def)
qed

text \<open>A positive binary64 value is an integer below \<open>2 ^ 53\<close> times a power of two.\<close>

lemma is_binary64_significand:
  assumes "is_binary64 r" "0 < r"
  shows "\<exists>k e. r = real_of_int k * 2 powr real_of_int e \<and> 0 < k \<and> k < 2 ^ 53"
proof -
  let ?u = "binary64_ulp r"
  let ?k = "round_half_even (r / ?u)"
  have u: "0 < ?u" by (rule ulp_pos)
  have fixed: "r = real_of_int ?k * ?u"
    using assms by (simp add: is_binary64_def round_binary64_def)
  have "0 < real_of_int ?k * ?u" using fixed assms(2) by simp
  then have kpos: "0 < ?k" using u by (simp add: zero_less_mult_iff)
  have top: "real_of_int (2 ^ 53) * ?u = 2 powr of_int (binary64_exponent r + 1)"
    using pow2_shift[of 53 "of_int (binary64_exponent r + 1)"]
    by (simp add: binary64_ulp_def algebra_simps)
  have "real_of_int ?k * ?u < real_of_int (2 ^ 53) * ?u"
    using exponent_upper[OF assms(2)] fixed by (simp only: top)
  then have "real_of_int ?k < real_of_int (2 ^ 53)"
    using u by (simp only: mult_less_cancel_right_pos)
  then have "?k < 2 ^ 53" by (simp only: of_int_less_iff)
  with fixed kpos show ?thesis
    by (intro exI[of _ ?k] exI[of _ "binary64_exponent r - 52"]) (simp add: binary64_ulp_def)
qed

lemma significand_gap:
  fixes S H :: int
  assumes "S < H" "H \<le> 2 ^ 53 \<or> S < 2 ^ 53"
  shows "real_of_int S \<le> real_of_int H * (1 - 1 / 2 ^ 53)"
proof (cases "H \<le> 2 ^ 53")
  case True
  then have "real_of_int H \<le> real_of_int (2 ^ 53)" by (simp only: of_int_le_iff)
  then have "real_of_int H / 2 ^ 53 \<le> 1" by simp
  moreover have "real_of_int S \<le> real_of_int H - 1" using assms(1) by linarith
  ultimately show ?thesis by (simp add: algebra_simps)
next
  case False
  with assms(2) have "S < 2 ^ 53" by simp
  then have "S \<le> 2 ^ 53 - 1" by simp
  then have "real_of_int S \<le> real_of_int (2 ^ 53 - 1)" by (simp only: of_int_le_iff)
  also have "\<dots> = 2 ^ 53 * (1 - 1 / 2 ^ 53)" by simp
  also have "\<dots> \<le> real_of_int H * (1 - 1 / 2 ^ 53)"
  proof (rule mult_right_mono)
    from False have "2 ^ 53 \<le> H" by simp
    then have "real_of_int (2 ^ 53) \<le> real_of_int H" by (simp only: of_int_le_iff)
    then show "2 ^ 53 \<le> real_of_int H" by simp
  qed simp
  finally show ?thesis .
qed

lemma pow2_split:
  assumes "a \<le> b"
  shows "2 powr real_of_int b = real_of_int (2 ^ nat (b - a)) * 2 powr real_of_int a"
proof -
  have "real_of_int (2 ^ nat (b - a)) = 2 powr real (nat (b - a))" by (simp add: powr_realpow)
  also have "real (nat (b - a)) = real_of_int b - real_of_int a" using assms by simp
  finally show ?thesis by (simp add: powr_diff)
qed

text \<open>Below a binary64 value, the next binary64 value is at least one part in \<open>2 ^ 53\<close> away.\<close>

lemma binary64_gap:
  assumes s: "s = real_of_int ks * 2 powr real_of_int es" "0 < ks" "ks < 2 ^ 53"
      and h: "h = real_of_int kh * 2 powr real_of_int eh" "0 < kh" "kh < 2 ^ 53"
      and lt: "s < h"
  shows "s \<le> h * (1 - 1 / 2 ^ 53)"
proof -
  show ?thesis
  proof (cases "eh \<le> es")
    case True
    let ?u = "2 powr real_of_int eh"
    let ?S = "ks * 2 ^ nat (es - eh)"
    have s': "s = real_of_int ?S * ?u"
      using pow2_split[OF True] by (simp add: s(1))
    have "real_of_int ?S * ?u < real_of_int kh * ?u" using lt by (simp only: s' h(1)[symmetric])
    then have "real_of_int ?S < real_of_int kh" by simp
    then have "?S < kh" by (simp only: of_int_less_iff)
    then have "real_of_int ?S \<le> real_of_int kh * (1 - 1 / 2 ^ 53)"
      using h(3) by (intro significand_gap) simp_all
    then have "real_of_int ?S * ?u \<le> real_of_int kh * (1 - 1 / 2 ^ 53) * ?u"
      by (intro mult_right_mono) simp_all
    then show ?thesis by (simp only: s' h(1)) (simp add: algebra_simps)
  next
    case False
    then have le: "es \<le> eh" by simp
    let ?u = "2 powr real_of_int es"
    let ?H = "kh * 2 ^ nat (eh - es)"
    have h': "h = real_of_int ?H * ?u"
      using pow2_split[OF le] by (simp add: h(1))
    have "real_of_int ks * ?u < real_of_int ?H * ?u" using lt by (simp only: h' s(1)[symmetric])
    then have "real_of_int ks < real_of_int ?H" by simp
    then have "ks < ?H" by (simp only: of_int_less_iff)
    then have "real_of_int ks \<le> real_of_int ?H * (1 - 1 / 2 ^ 53)"
      using s(3) by (intro significand_gap) simp_all
    then have "real_of_int ks * ?u \<le> real_of_int ?H * (1 - 1 / 2 ^ 53) * ?u"
      by (intro mult_right_mono) simp_all
    then show ?thesis by (simp only: h' s(1)) (simp add: algebra_simps)
  qed
qed

lemma is_binary64_half:
  assumes "is_binary64 m" "0 < m"
  shows "\<exists>k e. m / 2 = real_of_int k * 2 powr real_of_int e \<and> 0 < k \<and> k < 2 ^ 53"
proof -
  obtain k e where m: "m = real_of_int k * 2 powr real_of_int e" "0 < k" "k < 2 ^ 53"
    using is_binary64_significand[OF assms] by blast
  have "2 powr real_of_int e = 2 * 2 powr real_of_int (e - 1)"
    by (simp add: powr_diff)
  then have "m / 2 = real_of_int k * 2 powr real_of_int (e - 1)" by (simp add: m(1))
  with m(2,3) show ?thesis by blast
qed


lemma ratio_below_half:
  assumes "is_binary64 s" "is_binary64 m" "0 \<le> s" "0 < m" "s / m < 1 / 2"
  shows "s / m \<le> 1 / 2 - 1 / 2 ^ 54"
proof (cases "s = 0")
  case True
  then show ?thesis by simp
next
  case False
  with assms(3) have spos: "0 < s" by simp
  obtain ks es where s: "s = real_of_int ks * 2 powr real_of_int es" "0 < ks" "ks < 2 ^ 53"
    using is_binary64_significand[OF assms(1) spos] by blast
  obtain kh eh where h: "m / 2 = real_of_int kh * 2 powr real_of_int eh" "0 < kh" "kh < 2 ^ 53"
    using is_binary64_half[OF assms(2,4)] by blast
  have "s < m / 2" using assms(4,5) by (simp add: field_simps)
  from binary64_gap[OF s h this] have "s \<le> m / 2 * (1 - 1 / 2 ^ 53)" .
  then have "s / m \<le> m / 2 * (1 - 1 / 2 ^ 53) / m"
    using assms(4) by (intro divide_right_mono) simp_all
  also have "\<dots> = 1 / 2 - 1 / 2 ^ 54" using assms(4) by simp
  finally show ?thesis .
qed

lemma round_below_half: "round_binary64 (1 / 2 - 1 / 2 ^ 54) = 1 / 2 - 1 / 2 ^ 54"
  by (rule round_binary64_exact[where e = "- 2" and k = "2 ^ 53 - 1"]) (simp_all add: powr_minus)

lemma percent_below_half:
  "round_binary64 ((1 / 2 - 1 / 2 ^ 54) * 100) = 50 - 1 / 2 ^ 47"
proof -
  have "round_binary64 ((1 / 2 - 1 / 2 ^ 54) * 100)
      = of_int (round_half_even (((1 / 2 - 1 / 2 ^ 54) * 100) / 2 powr of_int (5 - 52)))
          * 2 powr of_int (5 - 52)"
    by (rule round_binary64_eval) (simp_all add: powr_minus)
  also have "\<dots> = 50 - 1 / 2 ^ 47"
    by (simp add: powr_minus round_half_even_eval)
  finally show ?thesis .
qed

text \<open>
  The two roundings of \<open>(std / mean) * 100\<close> never change the side of 50 the ratio of
  the two floats is on.
\<close>

lemma coefficient_below_50_iff:
  assumes "is_binary64 s" "is_binary64 m" "0 \<le> s" "0 < m"
  shows "float_less (float_mul (float_div (Finite s) (Finite m)) (Finite 100)) (Finite 50)
         \<longleftrightarrow> s / m * 100 < 50"
proof (cases "s / m < 1 / 2")
  case True
  let ?p = "1 / 2 - 1 / 2 ^ 54 :: real"
  let ?r = "round_binary64 (s / m)"
  have q0: "0 \<le> s / m" using assms(3,4) by simp
  have "?r \<le> round_binary64 ?p"
    by (rule round_binary64_mono[OF q0 ratio_below_half[OF assms True]])
  then have rp: "?r \<le> ?p" by (simp only: round_below_half)
  have r0: "0 \<le> ?r" by (rule round_nonneg[OF q0])
  have "?p < 2 ^ 1024" by simp
  with rp have "\<not> 2 ^ 1024 \<le> ?r" by linarith
  then have div: "float_div (Finite s) (Finite m) = Finite ?r"
    using assms(4) binary64_nonneg[OF q0] by simp
  have r100: "0 \<le> ?r * 100" using r0 by simp
  have "?r * 100 \<le> ?p * 100" by (rule mult_right_mono[OF rp]) simp
  from round_binary64_mono[OF r100 this]
  have "round_binary64 (?r * 100) \<le> 50 - 1 / 2 ^ 47" by (simp only: percent_below_half)
  moreover have "(50 - 1 / 2 ^ 47 :: real) < 50" by simp
  ultimately have lt: "round_binary64 (?r * 100) < 50" by linarith
  have "(50::real) < 2 ^ 1024" by simp
  with lt have "\<not> 2 ^ 1024 \<le> round_binary64 (?r * 100)" by linarith
  then have "float_mul (Finite ?r) (Finite 100) = Finite (round_binary64 (?r * 100))"
    using binary64_nonneg[OF r100] by simp
  moreover have "q * 100 < 50" if "q < 1 / 2" for q :: real using that by linarith
  from this[OF True] have "s / m * 100 < 50" .
  ultimately show ?thesis using lt unfolding div by simp
next
  case False
  then have half: "1 / 2 \<le> s / m" by simp
  let ?r = "round_binary64 (s / m)"
  have q0: "0 \<le> s / m" using assms(3,4) by simp
  have "round_binary64 (1 / 2) \<le> ?r" by (rule round_binary64_mono[OF _ half]) simp
  then have r: "1 / 2 \<le> ?r" by (simp only: round_binary64_half)
  have not_less: "\<not> float_less (float_mul (binary64 (s / m)) (Finite 100)) (Finite 50)"
  proof (cases "2 ^ 1024 \<le> ?r")
    case True
    then have "binary64 (s / m) = PInf" using binary64_nonneg[OF q0] by simp
    then show ?thesis by simp
  next
    case fin: False
    then have b: "binary64 (s / m) = Finite ?r" using binary64_nonneg[OF q0] by simp
    have "(50::real) \<le> ?r * 100" using r by simp
    from round_binary64_mono[OF _ this] have ge: "50 \<le> round_binary64 (?r * 100)"
      by (simp add: round_binary64_50)
    have r100: "0 \<le> ?r * 100" using r by simp
    show ?thesis
    proof (cases "2 ^ 1024 \<le> round_binary64 (?r * 100)")
      case True
      then have "float_mul (Finite ?r) (Finite 100) = PInf"
        using binary64_nonneg[OF r100] by simp
      then show ?thesis unfolding b by simp
    next
      case False
      then have "float_mul (Finite ?r) (Finite 100) = Finite (round_binary64 (?r * 100))"
        using binary64_nonneg[OF r100] by simp
      then show ?thesis using ge unfolding b by simp
    qed
  qed
  have "float_div (Finite s) (Finite m) = binary64 (s / m)" using assms(4) by simp
  moreover have "\<not> q * 100 < 50" if "1 / 2 \<le> q" for q :: real using that by linarith
  from this[OF half] have "\<not> s / m * 100 < 50" .
  ultimately show ?thesis using not_less by simp
qed

lemma consistency_verdict:
  assumes "consistency_query wh = Inr df"
  shows "fst (check_data_consistency wh l) =
     Inr (PyBool (frame_rows df \<noteq> []
                  \<and> float_less (float_mul (float_div (daily_records_std df) (daily_records_mean df))
                                  (Finite 100)) (Finite 50)))"
  using assms
  by (simp add: check_data_consistency_def check_data_consistency_body_def
        except_return_False_def Let_def del: float_mul.simps float_div.simps)

text \<open>The exact statistics of three counts \<open>c - d\<close>, \<open>c\<close>, \<open>c + d\<close>.\<close>

lemma three_day_series:
  "spec_mean [c - d, c, c + d] = real_of_int c"
  "0 \<le> d \<Longrightarrow> spec_stddev [c - d, c, c + d] = real_of_int d"
proof -
  show m: "spec_mean [c - d, c, c + d] = real_of_int c" by (simp add: spec_mean_def)
  assume d: "0 \<le> d"
  have "sum_list (map (\<lambda>x. (real_of_int x - real_of_int c)\<^sup>2) [c - d, c, c + d]) / real (3 - 1)
          = (real_of_int d)\<^sup>2"
    by (simp add: power2_eq_square)
  then show "spec_stddev [c - d, c, c + d] = real_of_int d"
    using d by (simp add: spec_stddev_def m)
qed

text \<open>
  Claim C6 says that the check yields Passed exactly when the coefficient of variation
  of the daily series is below 50. The check sees the series through the two float
  statistics of the data frame. For the daily counts 10000000000000001,
  20000000000000000 and 29999999999999999 the coefficient of variation is below 50; the
  counts are not binary64 values, the frame's standard deviation and mean are
  10000000000000000 and 20000000000000000, the code computes exactly 50.0 and the check
  yields Failed.
\<close>

theorem consistency_large_counts_counterexample:
  "spec_coefficient_of_variation [10000000000000001, 20000000000000000, 29999999999999999] < 50
   \<and> fst (check_data_consistency
             (consistency_warehouse
                (frame_of [10000000000000001, 20000000000000000, 29999999999999999]
                   (Finite 10000000000000000) (Finite 20000000000000000))) [])
       = Inr (PyBool False)"
proof -
  have "spec_coefficient_of_variation [10000000000000001, 20000000000000000, 29999999999999999]
          = 9999999999999999 / 20000000000000000 * 100"
    using three_day_series(1)[of 20000000000000000 9999999999999999]
      three_day_series(2)[of 9999999999999999 20000000000000000]
    by (simp add: spec_coefficient_of_variation_def)
  then have cv: "spec_coefficient_of_variation
                   [10000000000000001, 20000000000000000, 29999999999999999] < 50"
    by simp
  have "float_div (Finite 10000000000000000) (Finite 20000000000000000) = binary64 (1 / 2)"
    by simp
  also have "\<dots> = Finite (1 / 2)"
    using binary64_bounded(1)[of "1 / 2"] by (simp add: round_binary64_half)
  finally have d: "float_div (Finite 10000000000000000) (Finite 20000000000000000) = Finite (1 / 2)" .
  have "float_mul (Finite (1 / 2)) (Finite 100) = binary64 50" by simp
  also have "\<dots> = Finite 50"
    using binary64_bounded(1)[of 50] by (simp add: round_binary64_50)
  finally have m: "float_mul (Finite (1 / 2)) (Finite 100) = Finite 50" .
  have q: "consistency_query (consistency_warehouse df) = Inr df" for df
    by (simp add: consistency_warehouse_def)
  have "fst (check_data_consistency
             (consistency_warehouse
                (frame_of [10000000000000001, 20000000000000000, 29999999999999999]
                   (Finite 10000000000000000) (Finite 20000000000000000))) [])
       = Inr (PyBool False)"
    unfolding consistency_verdict[OF q] frame_of_def
    by (simp add: d m del: float_mul.simps float_div.simps)
  with cv show ?thesis by simp
qed

text \<open>
  Claim C6 as amended. Applied to the data frame the query returns, the consistency check
  yields Passed or Failed, never an error. It yields Failed (not Error) when the window
  has zero rows, and Failed when the frame's standard deviation is NaN, as it is for a
  one-day window. For a window with rows whose float statistics are a standard deviation
  \<open>s\<close> of at least zero and a mean \<open>m\<close> above zero, it yields Passed exactly when the
  coefficient of variation of these statistics, \<open>s / m * 100\<close>, is strictly less than 50:
  the roundings of the code's division and multiplication never change the verdict. The
  moving average and the file counts of the rows play no part.
\<close>

theorem consistency_passed_iff_cv_below_50:
  assumes "consistency_query wh = Inr df"
  shows "(fst (check_data_consistency wh l) = Inr (PyBool True)
            \<or> fst (check_data_consistency wh l) = Inr (PyBool False))
       \<and> (frame_rows df = [] \<longrightarrow> fst (check_data_consistency wh l) = Inr (PyBool False))
       \<and> (daily_records_std df = NaN \<longrightarrow>
            fst (check_data_consistency wh l) = Inr (PyBool False))
       \<and> (frame_rows df \<noteq> []
            \<and> daily_records_std df = Finite s \<and> daily_records_mean df = Finite m
            \<and> is_binary64 s \<and> is_binary64 m \<and> 0 \<le> s \<and> 0 < m \<longrightarrow>
            (fst (check_data_consistency wh l) = Inr (PyBool True) \<longleftrightarrow> s / m * 100 < 50))"
proof (intro conjI impI)
  show "fst (check_data_consistency wh l) = Inr (PyBool True)
            \<or> fst (check_data_consistency wh l) = Inr (PyBool False)"
    unfolding consistency_verdict[OF assms] by auto
next
  assume "frame_rows df = []"
  then show "fst (check_data_consistency wh l) = Inr (PyBool False)"
    unfolding consistency_verdict[OF assms] by simp
next
  assume "daily_records_std df = NaN"
  then show "fst (check_data_consistency wh l) = Inr (PyBool False)"
    unfolding consistency_verdict[OF assms] by simp
next
  assume a: "frame_rows df \<noteq> []
            \<and> daily_records_std df = Finite s \<and> daily_records_mean df = Finite m
            \<and> is_binary64 s \<and> is_binary64 m \<and> 0 \<le> s \<and> 0 < m"
  then have "float_less (float_mul (float_div (Finite s) (Finite m)) (Finite 100)) (Finite 50)
               \<longleftrightarrow> s / m * 100 < 50"
    by (intro coefficient_below_50_iff) simp_all
  with a show "fst (check_data_consistency wh l) = Inr (PyBool True) \<longleftrightarrow> s / m * 100 < 50"
    unfolding consistency_verdict[OF assms] by (simp del: float_mul.simps float_div.simps)
qed

lemma is_binary64_samples: "is_binary64 49" "is_binary64 51" "is_binary64 100"
proof -
  have "round_binary64 49 = 49"
    by (rule round_binary64_exact[where e = 5 and k = "49 * 2 ^ 47"]) (simp_all add: powr_minus)
  then show "is_binary64 49" by (simp add: is_binary64_def)
  have "round_binary64 51 = 51"
    by (rule round_binary64_exact[where e = 5 and k = "51 * 2 ^ 47"]) (simp_all add: powr_minus)
  then show "is_binary64 51" by (simp add: is_binary64_def)
  show "is_binary64 100" by (simp add: is_binary64_def round_binary64_100)
qed

text \<open>
  The theorem at three-day frames with a coefficient of variation of 49 (Passed) and of
  51 (Failed), at a one-day frame and at the empty frame (Failed).
\<close>

theorem consistency_passed_iff_cv_below_50_witness:
  "fst (check_data_consistency
          (consistency_warehouse (frame_of [51, 100, 149] (Finite 49) (Finite 100))) [])
     = Inr (PyBool True)
   \<and> fst (check_data_consistency
          (consistency_warehouse (frame_of [49, 100, 151] (Finite 51) (Finite 100))) [])
     = Inr (PyBool False)
   \<and> fst (check_data_consistency (consistency_warehouse (frame_of [100] NaN (Finite 100))) [])
     = Inr (PyBool False)
   \<and> fst (check_data_consistency (consistency_warehouse empty_frame) []) = Inr (PyBool False)"
proof -
  have q: "consistency_query (consistency_warehouse df) = Inr df" for df
    by (simp add: consistency_warehouse_def)
  have f: "frame_rows (frame_of [51, 100, 149] (Finite 49) (Finite 100)) \<noteq> []
           \<and> daily_records_std (frame_of [51, 100, 149] (Finite 49) (Finite 100)) = Finite 49
           \<and> daily_records_mean (frame_of [51, 100, 149] (Finite 49) (Finite 100)) = Finite 100
           \<and> is_binary64 49 \<and> is_binary64 100 \<and> (0::real) \<le> 49 \<and> (0::real) < 100"
    "frame_rows (frame_of [49, 100, 151] (Finite 51) (Finite 100)) \<noteq> []
           \<and> daily_records_std (frame_of [49, 100, 151] (Finite 51) (Finite 100)) = Finite 51
           \<and> daily_records_mean (frame_of [49, 100, 151] (Finite 51) (Finite 100)) = Finite 100
           \<and> is_binary64 51 \<and> is_binary64 100 \<and> (0::real) \<le> 51 \<and> (0::real) < 100"
    by (simp_all add: frame_of_def daily_series_def is_binary64_samples)
  have n: "daily_records_std (frame_of [100] NaN (Finite 100)) = NaN"
    "frame_rows empty_frame = []"
    by (simp_all add: frame_of_def empty_frame_def)
  from consistency_passed_iff_cv_below_50[OF q, of _ "[]" 49 100] f(1)
  have 1: "fst (check_data_consistency
          (consistency_warehouse (frame_of [51, 100, 149] (Finite 49) (Finite 100))) [])
     = Inr (PyBool True)"
    by simp
  from consistency_passed_iff_cv_below_50[OF q, of _ "[]" 51 100] f(2)
  have 2: "fst (check_data_consistency
          (consistency_warehouse (frame_of [49, 100, 151] (Finite 51) (Finite 100))) [])
     = Inr (PyBool False)"
    by auto
  from consistency_passed_iff_cv_below_50[OF q, of "frame_of [100] NaN (Finite 100)" "[]"] n(1)
  have 3: "fst (check_data_consistency (consistency_warehouse (frame_of [100] NaN (Finite 100))) [])
     = Inr (PyBool False)"
    by simp
  from consistency_passed_iff_cv_below_50[OF q, of empty_frame "[]"] n(2)
  have 4: "fst (check_data_consistency (consistency_warehouse empty_frame) []) = Inr (PyBool False)"
    by simp
  show ?thesis using 1 2 3 4 by simp
qed

subsection \<open>C7: the completeness check\<close>

lemma fraction_above_threshold:
  "round_binary64 (9500000000000001 / 10000000000000000) = 8556839292003943 / 2 ^ 53"
proof -
  have "round_binary64 (9500000000000001 / 10000000000000000)
      = of_int (round_half_even ((9500000000000001 / 10000000000000000) / 2 powr of_int (- 1 - 52)))
          * 2 powr of_int (- 1 - 52)"
    by (rule round_binary64_eval) (simp_all add: powr_minus)
  also have "\<dots> = 8556839292003943 / 2 ^ 53"
    by (simp add: powr_minus round_half_even_eval)
  finally show ?thesis .
qed

lemma percent_above_threshold: "round_binary64 (8556839292003943 / 2 ^ 53 * 100) = 95"
proof -
  have "round_binary64 (8556839292003943 / 2 ^ 53 * 100)
      = of_int (round_half_even ((8556839292003943 / 2 ^ 53 * 100) / 2 powr of_int (6 - 52)))
          * 2 powr of_int (6 - 52)"
    by (rule round_binary64_eval) (simp_all add: powr_minus)
  also have "\<dots> = 95"
    by (simp add: powr_minus round_half_even_eval)
  finally show ?thesis .
qed

lemma large_table_percentage:
  "truediv 9500000000000001 10000000000000000 = Inr (Finite (8556839292003943 / 2 ^ 53))"
  "float_mul (Finite (8556839292003943 / 2 ^ 53)) (Finite 100) = Finite 95"
proof -
  have "truediv 9500000000000001 10000000000000000
          = Inr (Finite (round_binary64 (real_of_int 9500000000000001 / real_of_int 10000000000000000)))"
    by (rule truediv_fraction(1)) simp_all
  then show "truediv 9500000000000001 10000000000000000 = Inr (Finite (8556839292003943 / 2 ^ 53))"
    using fraction_above_threshold by simp
  have "float_mul (Finite (8556839292003943 / 2 ^ 53)) (Finite 100)
          = Finite (round_binary64 (8556839292003943 / 2 ^ 53 * 100))"
    by (rule percent_of_fraction) simp_all
  then show "float_mul (Finite (8556839292003943 / 2 ^ 53)) (Finite 100) = Finite 95"
    by (simp only: percent_above_threshold)
qed

text \<open>
  Claim C7 says that the check yields Passed exactly when the fraction of non-null values
  strictly exceeds 0.95. The code compares the float \<open>(valid / total) * 100\<close> with 95:
  for a table of \<open>10 ^ 16\<close> records with 9500000000000001 non-null values in each field
  the fraction exceeds 0.95, the two roundings give exactly 95.0, and the check yields
  Failed.
\<close>

theorem completeness_large_table_counterexample:
  "95 / 100 < (9500000000000001 :: real) / 10000000000000000
   \<and> fst (check_data_completeness
             (completeness_warehouse 10000000000000000 9500000000000001) [])
       = Inr (PyBool False)"
proof -
  have "completeness_verdict \<lparr>total_records = 10000000000000000,
           valid_timestamps = 9500000000000001, valid_filenames = 9500000000000001,
           valid_loadtimes = 9500000000000001\<rparr> = Inr (PyBool False)"
    using large_table_percentage
    by (simp add: completeness_verdict_def Let_def del: float_mul.simps)
  then show ?thesis
    by (simp add: check_data_completeness_def check_data_completeness_body_def
          completeness_warehouse_def except_return_False_def)
qed

text \<open>
  Claim C7 as amended. On the row the completeness query returns, for a total of at most
  \<open>10 ^ 14\<close> records and non-null counts between zero and the total, the check yields
  Passed exactly when the fraction of non-null values strictly exceeds 0.95 of the total
  record count for each field the verdict requires, the partition timestamp and the file
  name, and Failed otherwise; it yields Failed for a total of zero, where the division
  raises inside the check. The load-time fraction is computed and logged only; it is not
  on the right-hand side. With total 100, 96 non-null values in each field give Passed
  and 94 give Failed.
\<close>

theorem completeness_passed_iff_above_95:
  assumes "completeness_query wh = QueryRows (row # rest)"
  shows "(total_records row = 0 \<longrightarrow> fst (check_data_completeness wh l) = Inr (PyBool False))
       \<and> (0 < total_records row \<and> total_records row \<le> 10 ^ 14
            \<and> 0 \<le> valid_timestamps row \<and> valid_timestamps row \<le> total_records row
            \<and> 0 \<le> valid_filenames row \<and> valid_filenames row \<le> total_records row
            \<and> 0 \<le> valid_loadtimes row \<and> valid_loadtimes row \<le> total_records row \<longrightarrow>
          fst (check_data_completeness wh l)
            = Inr (PyBool (95 / 100 < real_of_int (valid_timestamps row) / real_of_int (total_records row)
                           \<and> 95 / 100 < real_of_int (valid_filenames row) / real_of_int (total_records row))))"
proof (intro conjI impI)
  assume "total_records row = 0"
  then have "completeness_verdict row = Inl (Exception ''division by zero'')"
    by (simp add: completeness_verdict_def truediv_def)
  then show "fst (check_data_completeness wh l) = Inr (PyBool False)"
    using assms
    by (simp add: check_data_completeness_def check_data_completeness_body_def
          except_return_False_def)
next
  assume b: "0 < total_records row \<and> total_records row \<le> 10 ^ 14
            \<and> 0 \<le> valid_timestamps row \<and> valid_timestamps row \<le> total_records row
            \<and> 0 \<le> valid_filenames row \<and> valid_filenames row \<le> total_records row
            \<and> 0 \<le> valid_loadtimes row \<and> valid_loadtimes row \<le> total_records row"
  then have "completeness_verdict row =
     Inr (PyBool (95 / 100 < real_of_int (valid_timestamps row) / real_of_int (total_records row)
                  \<and> 95 / 100 < real_of_int (valid_filenames row) / real_of_int (total_records row)))"
    by (intro completeness_verdict_fractions) simp_all
  then show "fst (check_data_completeness wh l)
            = Inr (PyBool (95 / 100 < real_of_int (valid_timestamps row) / real_of_int (total_records row)
                           \<and> 95 / 100 < real_of_int (valid_filenames row) / real_of_int (total_records row)))"
    using assms
    by (simp add: check_data_completeness_def check_data_completeness_body_def
          except_return_False_def)
qed

text \<open>The theorem at total 100 with 96 and with 94 non-null values, and at an empty table.\<close>

theorem completeness_passed_iff_above_95_witness:
  "fst (check_data_completeness (completeness_warehouse 100 96) []) = Inr (PyBool True)
   \<and> fst (check_data_completeness (completeness_warehouse 100 94) []) = Inr (PyBool False)
   \<and> fst (check_data_completeness (completeness_warehouse 0 0) []) = Inr (PyBool False)"
proof -
  have q: "completeness_query (completeness_warehouse t n)
     = QueryRows [\<lparr>total_records = t, valid_timestamps = n,
                   valid_filenames = n, valid_loadtimes = n\<rparr>]" for t n
    by (simp add: completeness_warehouse_def)
  show ?thesis
    using completeness_passed_iff_above_95[OF q, of 100 96 "[]"]
      completeness_passed_iff_above_95[OF q, of 100 94 "[]"]
      completeness_passed_iff_above_95[OF q, of 0 0 "[]"]
    by simp
qed

subsection \<open>The loader: polling and the driver\<close>

lemma monitor_skip:
  "(\<forall>i<n. done (k + i) = Pending) \<Longrightarrow> monitor done k = monitor done (k + n)"
proof (induction n arbitrary: k)
  case 0
  then show ?case by simp
next
  case (Suc n)
  from Suc.prems have first: "done k = Pending" by (metis add.right_neutral zero_less_Suc)
  from Suc.prems have "\<forall>i<n. done (Suc k + i) = Pending" by auto
  from Suc.IH[OF this] have "monitor done (Suc k) = monitor done (k + Suc n)" by simp
  with first show ?case by (subst monitor.simps) simp
qed

lemma monitor_done:
  assumes "\<forall>i<n. done i = Pending" and "done n = Done"
  shows "monitor done 0 = Some (n, None)"
proof -
  have "monitor done 0 = monitor done n" using monitor_skip[of n "done" 0] assms(1) by simp
  also have "\<dots> = Some (n, None)" using assms(2) by (subst monitor.simps) simp
  finally show ?thesis .
qed

lemma monitor_raises:
  assumes "\<forall>i<n. done i = Pending" and "done n = PollRaises e"
  shows "monitor done 0 = Some (n, Some e)"
proof -
  have "monitor done 0 = monitor done n" using monitor_skip[of n "done" 0] assms(1) by simp
  also have "\<dots> = Some (n, Some e)" using assms(2) by (subst monitor.simps) simp
  finally show ?thesis .
qed

lemma load_terminal:
  assumes "load_table_from_uri env = None"
      and "\<forall>i<n. job_done env i = Pending" and "job_done env n = Done"
  shows "load_data_from_gcs env =
     (if job_errors env \<noteq> [] then Some (load_log n @ [LogError ''Errores en la carga''], False)
      else case get_table env of
             Some e \<Rightarrow> Some (load_log n @ [LogError ''Error en la carga de datos''], False)
           | None \<Rightarrow> Some (load_log n @ [LogInfo ''Carga completada exitosamente!'',
                                          LogInfo ''Registros cargados'',
                                          LogInfo ''Tamano de tabla''], True))"
  using assms(1) monitor_done[OF assms(2,3)]
  by (simp add: load_data_from_gcs_def load_log_def Let_def split: option.splits)

lemma load_poll_raises:
  assumes "load_table_from_uri env = None"
      and "\<forall>i<n. job_done env i = Pending" and "job_done env n = PollRaises e"
  shows "load_data_from_gcs env = Some (load_log n @ [LogError ''Error en la carga de datos''], False)"
  using assms(1) monitor_raises[OF assms(2,3)]
  by (simp add: load_data_from_gcs_def load_log_def Let_def)

lemma load_submit_raises:
  assumes "load_table_from_uri env = Some e"
  shows "load_data_from_gcs env =
     Some ([LogInfo ''Iniciando carga de datos'', LogInfo ''Este proceso puede tomar varias horas'',
            LogError ''Error en la carga de datos''], False)"
  using assms by (simp add: load_data_from_gcs_def Let_def)

lemma main_after_setup:
  assumes "create_client env = None" and "create_dataset env = None"
  shows "main env =
     (case load_data_from_gcs env of
        None \<Rightarrow> None
      | Some (l3, success) \<Rightarrow>
          if success
          then Some (setup_log @ l3 @ fst (validate_data_quality env)
                     @ [LogInfo ''Proceso de carga completado exitosamente!''], None)
          else Some (setup_log @ l3 @ [LogError ''Fallo en el proceso de carga''], None))"
  using assms
  by (simp add: main_def create_bigquery_client_def create_dataset_and_table_def setup_log_def
        Let_def split: option.splits prod.splits)

lemma validation_logged:
  "LogInfo ''Validando calidad de los datos'' \<in> set (fst (validate_data_quality env))"
  by (simp add: validate_data_quality_def Let_def split: sum.splits)

lemma validation_not_in_load_log:
  "LogInfo ''Validando calidad de los datos'' \<notin> set (setup_log @ load_log n)"
  by (simp add: setup_log_def load_log_def)

lemma main_client_raises:
  "create_client env = Some e \<Longrightarrow>
     main env = Some ([LogInfo ''Iniciando proceso de carga de datos'',
                       LogError ''Error creando cliente BigQuery'', LogError ''Error critico''],
                      Some e)"
  by (simp add: main_def create_bigquery_client_def Let_def)

lemma main_dataset_raises:
  "create_client env = None \<Longrightarrow> create_dataset env = Some e \<Longrightarrow>
     main env = Some ([LogInfo ''Iniciando proceso de carga de datos'',
                       LogInfo ''Cliente BigQuery creado'',
                       LogError ''Error creando dataset/tabla'', LogError ''Error critico''],
                      Some e)"
  by (simp add: main_def create_bigquery_client_def create_dataset_and_table_def Let_def)

subsection \<open>C5: failures of the loader and the exit code\<close>

text \<open>
  Claim C5 says that every unrecovered failure of a pipeline step, a load job that ends
  with errors included, is re-raised so that the process ends with a non-zero outcome.
  A load job that ends with errors makes the load step return \<open>False\<close>; the driver logs
  the failure and returns, and the exit code is 0.
\<close>

theorem loader_exit_zero_after_failed_load_counterexample:
  "job_errors loader_job_errors = [''Too many errors encountered'']
   \<and> main loader_job_errors
       = Some ([LogInfo ''Iniciando proceso de carga de datos'',
                LogInfo ''Cliente BigQuery creado'',
                LogInfo ''Dataset creado'', LogInfo ''Tabla configurada'',
                LogInfo ''Iniciando carga de datos'',
                LogInfo ''Este proceso puede tomar varias horas'',
                LogInfo ''Monitoreando progreso de la carga'',
                LogInfo ''Estado'', LogInfo ''Estado'',
                LogError ''Errores en la carga'',
                LogError ''Fallo en el proceso de carga''], None)
   \<and> process_exit (main loader_job_errors) = Some 0"
proof -
  have j: "create_client loader_job_errors = None" "create_dataset loader_job_errors = None"
    "load_table_from_uri loader_job_errors = None"
    "\<forall>i<2. job_done loader_job_errors i = Pending"
    "job_done loader_job_errors 2 = Done"
    "job_errors loader_job_errors = [''Too many errors encountered'']"
    by (simp_all add: loader_job_errors_def loader_ok_def)
  show ?thesis
    by (simp add: main_after_setup[OF j(1,2)] load_terminal[OF j(3,4,5)] j(6)
          process_exit_def setup_log_def load_log_def numeral_2_eq_2)
qed

text \<open>
  Claim C5 as amended. A failure to create the client or the dataset and table is logged
  and re-raised by the driver: the process ends with exit code 1. An exception during
  load submission or polling, and a load job that ends with errors, are logged by the
  load step, which returns \<open>False\<close>; the driver then logs the failed load and returns
  normally, so the exit code is 0.
\<close>

theorem loader_failures_and_exit_code:
  "(create_client env = Some e \<longrightarrow>
      (\<exists>l. main env = Some (l, Some e) \<and> last l = LogError ''Error critico'')
      \<and> process_exit (main env) = Some 1)
   \<and> (create_client env = None \<and> create_dataset env = Some e \<longrightarrow>
      (\<exists>l. main env = Some (l, Some e) \<and> last l = LogError ''Error critico'')
      \<and> process_exit (main env) = Some 1)
   \<and> (create_client env = None \<and> create_dataset env = None
        \<and> load_data_from_gcs env = Some (l3, False) \<longrightarrow>
      main env = Some (setup_log @ l3 @ [LogError ''Fallo en el proceso de carga''], None)
      \<and> process_exit (main env) = Some 0)
   \<and> (load_table_from_uri env = Some e \<longrightarrow>
      (\<exists>l. load_data_from_gcs env = Some (l, False)
           \<and> last l = LogError ''Error en la carga de datos''))
   \<and> (load_table_from_uri env = None \<and> (\<forall>i<n. job_done env i = Pending)
        \<and> job_done env n = PollRaises e \<longrightarrow>
      (\<exists>l. load_data_from_gcs env = Some (l, False)
           \<and> last l = LogError ''Error en la carga de datos''))
   \<and> (load_table_from_uri env = None \<and> (\<forall>i<n. job_done env i = Pending)
        \<and> job_done env n = Done \<and> job_errors env \<noteq> [] \<longrightarrow>
      (\<exists>l. load_data_from_gcs env = Some (l, False)
           \<and> last l = LogError ''Errores en la carga''))"
proof (intro conjI impI)
  assume "create_client env = Some e"
  then show "\<exists>l. main env = Some (l, Some e) \<and> last l = LogError ''Error critico''"
    and "process_exit (main env) = Some 1"
    by (simp_all add: main_client_raises process_exit_def)
next
  assume "create_client env = None \<and> create_dataset env = Some e"
  then show "\<exists>l. main env = Some (l, Some e) \<and> last l = LogError ''Error critico''"
    and "process_exit (main env) = Some 1"
    by (simp_all add: main_dataset_raises process_exit_def)
next
  assume "create_client env = None \<and> create_dataset env = None
        \<and> load_data_from_gcs env = Some (l3, False)"
  then show "main env = Some (setup_log @ l3 @ [LogError ''Fallo en el proceso de carga''], None)"
    and "process_exit (main env) = Some 0"
    by (simp_all add: main_after_setup process_exit_def)
next
  assume "load_table_from_uri env = Some e"
  then show "\<exists>l. load_data_from_gcs env = Some (l, False)
           \<and> last l = LogError ''Error en la carga de datos''"
    by (simp add: load_submit_raises)
next
  assume "load_table_from_uri env = None \<and> (\<forall>i<n. job_done env i = Pending)
        \<and> job_done env n = PollRaises e"
  then show "\<exists>l. load_data_from_gcs env = Some (l, False)
           \<and> last l = LogError ''Error en la carga de datos''"
    using load_poll_raises[of env n e] by simp
next
  assume "load_table_from_uri env = None \<and> (\<forall>i<n. job_done env i = Pending)
        \<and> job_done env n = Done \<and> job_errors env \<noteq> []"
  then show "\<exists>l. load_data_from_gcs env = Some (l, False)
           \<and> last l = LogError ''Errores en la carga''"
    using load_terminal[of env n] by simp
qed

text \<open>
  The theorem at a run without credentials, one without access to the dataset, one whose
  submission raises, one whose second poll raises and one whose job ends with errors.
\<close>

theorem loader_failures_and_exit_code_witness:
  "create_client loader_no_client = Some (Exception ''DefaultCredentialsError'')
   \<and> process_exit (main loader_no_client) = Some 1
   \<and> create_dataset loader_no_dataset = Some (Exception ''403 Forbidden'')
   \<and> process_exit (main loader_no_dataset) = Some 1
   \<and> load_table_from_uri loader_submit_raises = Some (Exception ''404 Not found: URI'')
   \<and> process_exit (main loader_submit_raises) = Some 0
   \<and> job_done loader_poll_raises 1 = PollRaises (Exception ''Connection aborted'')
   \<and> process_exit (main loader_poll_raises) = Some 0
   \<and> job_errors loader_job_errors = [''Too many errors encountered'']
   \<and> process_exit (main loader_job_errors) = Some 0"
proof -
  have c: "create_client loader_no_client = Some (Exception ''DefaultCredentialsError'')"
    by (simp add: loader_no_client_def loader_ok_def)
  have d: "create_client loader_no_dataset = None
           \<and> create_dataset loader_no_dataset = Some (Exception ''403 Forbidden'')"
    by (simp add: loader_no_dataset_def loader_ok_def)
  have s: "create_client loader_submit_raises = None" "create_dataset loader_submit_raises = None"
    "load_table_from_uri loader_submit_raises = Some (Exception ''404 Not found: URI'')"
    by (simp_all add: loader_submit_raises_def loader_ok_def)
  have p: "create_client loader_poll_raises = None" "create_dataset loader_poll_raises = None"
    "load_table_from_uri loader_poll_raises = None
       \<and> (\<forall>i<1. job_done loader_poll_raises i = Pending)
       \<and> job_done loader_poll_raises 1 = PollRaises (Exception ''Connection aborted'')"
    by (simp_all add: loader_poll_raises_def loader_ok_def)
  have j: "create_client loader_job_errors = None" "create_dataset loader_job_errors = None"
    "load_table_from_uri loader_job_errors = None
       \<and> (\<forall>i<2. job_done loader_job_errors i = Pending)
       \<and> job_done loader_job_errors 2 = Done \<and> job_errors loader_job_errors \<noteq> []"
    "job_errors loader_job_errors = [''Too many errors encountered'']"
    by (simp_all add: loader_job_errors_def loader_ok_def)
  from loader_failures_and_exit_code[of loader_no_client "Exception ''DefaultCredentialsError''"] c
  have 1: "process_exit (main loader_no_client) = Some 1" by blast
  from loader_failures_and_exit_code[of loader_no_dataset "Exception ''403 Forbidden''"] d
  have 2: "process_exit (main loader_no_dataset) = Some 1" by blast
  from loader_failures_and_exit_code[of loader_submit_raises "Exception ''404 Not found: URI''"] s(3)
  obtain l where l: "load_data_from_gcs loader_submit_raises = Some (l, False)" by blast
  from loader_failures_and_exit_code[of loader_submit_raises _ l] s(1,2) l
  have 3: "process_exit (main loader_submit_raises) = Some 0" by blast
  from loader_failures_and_exit_code[of loader_poll_raises "Exception ''Connection aborted''" _ 1] p(3)
  obtain l' where l': "load_data_from_gcs loader_poll_raises = Some (l', False)" by blast
  from loader_failures_and_exit_code[of loader_poll_raises _ l'] p(1,2) l'
  have 4: "process_exit (main loader_poll_raises) = Some 0" by blast
  from loader_failures_and_exit_code[of loader_job_errors _ _ 2] j(3)
  obtain l'' where l'': "load_data_from_gcs loader_job_errors = Some (l'', False)" by blast
  from loader_failures_and_exit_code[of loader_job_errors _ l''] j(1,2) l''
  have 5: "process_exit (main loader_job_errors) = Some 0" by blast
  show ?thesis using c d s(3) p(3) j(4) 1 2 3 4 5 by simp
qed

subsection \<open>C8: the load job's error list and the validation step\<close>

text \<open>
  Claim C8 says that with an empty error list the validation step runs and the load
  step's flag is true. After the job is done the load step fetches the table's
  statistics inside the same try block: when that raises, the flag is false and the
  validation step does not run, although the job reported no error.
\<close>

theorem load_flag_false_without_errors_counterexample:
  "job_errors loader_table_lookup_fails = []
   \<and> load_data_from_gcs loader_table_lookup_fails
       = Some ([LogInfo ''Iniciando carga de datos'',
                LogInfo ''Este proceso puede tomar varias horas'',
                LogInfo ''Monitoreando progreso de la carga'',
                LogInfo ''Estado'', LogInfo ''Estado'',
                LogError ''Error en la carga de datos''], False)
   \<and> main loader_table_lookup_fails
       = Some ([LogInfo ''Iniciando proceso de carga de datos'',
                LogInfo ''Cliente BigQuery creado'',
                LogInfo ''Dataset creado'', LogInfo ''Tabla configurada'',
                LogInfo ''Iniciando carga de datos'',
                LogInfo ''Este proceso puede tomar varias horas'',
                LogInfo ''Monitoreando progreso de la carga'',
                LogInfo ''Estado'', LogInfo ''Estado'',
                LogError ''Error en la carga de datos'',
                LogError ''Fallo en el proceso de carga''], None)"
proof -
  have j: "create_client loader_table_lookup_fails = None"
    "create_dataset loader_table_lookup_fails = None"
    "load_table_from_uri loader_table_lookup_fails = None"
    "\<forall>i<2. job_done loader_table_lookup_fails i = Pending"
    "job_done loader_table_lookup_fails 2 = Done"
    "job_errors loader_table_lookup_fails = []"
    "get_table loader_table_lookup_fails = Some (Exception ''503 Service Unavailable'')"
    by (simp_all add: loader_table_lookup_fails_def loader_ok_def)
  show ?thesis
    by (simp add: main_after_setup[OF j(1,2)] load_terminal[OF j(3,4,5)] j(6,7)
          setup_log_def load_log_def numeral_2_eq_2)
qed

text \<open>
  Claim C8 as amended. For a run that reaches the load step, submits the job and sees it
  done after \<open>n\<close> polls: if the job's error list is not empty, the load step returns
  \<open>False\<close>, the driver stops before the validation step and logs the failed load; if the
  error list is empty and the table's statistics can be fetched, the load step returns
  \<open>True\<close> and the validation step runs.
\<close>

theorem load_errors_halt_before_validation:
  assumes "create_client env = None" and "create_dataset env = None"
      and "load_table_from_uri env = None"
      and "\<forall>i<n. job_done env i = Pending" and "job_done env n = Done"
  shows "(job_errors env \<noteq> [] \<longrightarrow>
            (\<exists>l. load_data_from_gcs env = Some (l, False))
          \<and> (\<exists>l. main env = Some (l, None)
               \<and> LogInfo ''Validando calidad de los datos'' \<notin> set l
               \<and> last l = LogError ''Fallo en el proceso de carga''))
       \<and> (job_errors env = [] \<and> get_table env = None \<longrightarrow>
            (\<exists>l. load_data_from_gcs env = Some (l, True))
          \<and> (\<exists>l. main env = Some (l, None)
               \<and> LogInfo ''Validando calidad de los datos'' \<in> set l))"
proof -
  note load = load_terminal[OF assms(3,4,5)]
  note main = main_after_setup[OF assms(1,2)]
  show ?thesis
    using validation_logged[of env] validation_not_in_load_log[of n]
    by (auto simp add: load main)
qed

text \<open>The theorem at the run whose job ends with errors and at the run that succeeds.\<close>

theorem load_errors_halt_before_validation_witness:
  "job_errors loader_job_errors \<noteq> []
   \<and> load_data_from_gcs loader_job_errors
       = Some (load_log 2 @ [LogError ''Errores en la carga''], False)
   \<and> main loader_job_errors
       = Some (setup_log @ load_log 2 @ [LogError ''Errores en la carga'',
                                         LogError ''Fallo en el proceso de carga''], None)
   \<and> job_errors loader_ok = [] \<and> get_table loader_ok = None
   \<and> load_data_from_gcs loader_ok
       = Some (load_log 2 @ [LogInfo ''Carga completada exitosamente!'',
                             LogInfo ''Registros cargados'', LogInfo ''Tamano de tabla''], True)
   \<and> main loader_ok
       = Some (setup_log @ load_log 2
               @ [LogInfo ''Carga completada exitosamente!'', LogInfo ''Registros cargados'',
                  LogInfo ''Tamano de tabla'', LogInfo ''Validando calidad de los datos'',
                  LogInfo ''Total de filas'', LogInfo ''Archivos procesados'',
                  LogInfo ''Rango de carga'', LogInfo ''Esquema de tabla'',
                  LogInfo ''   - fecha: DATE'', LogInfo ''   - cantidad: INTEGER'',
                  LogInfo ''Proceso de carga completado exitosamente!''], None)"
proof -
  have j: "create_client loader_job_errors = None" "create_dataset loader_job_errors = None"
    "load_table_from_uri loader_job_errors = None"
    "\<forall>i<2. job_done loader_job_errors i = Pending"
    "job_done loader_job_errors 2 = Done"
    by (simp_all add: loader_job_errors_def loader_ok_def)
  have je: "job_errors loader_job_errors \<noteq> []" by (simp add: loader_job_errors_def)
  have k: "create_client loader_ok = None" "create_dataset loader_ok = None"
    "load_table_from_uri loader_ok = None"
    "\<forall>i<2. job_done loader_ok i = Pending"
    "job_done loader_ok 2 = Done"
    by (simp_all add: loader_ok_def)
  have ke: "job_errors loader_ok = [] \<and> get_table loader_ok = None"
    by (simp add: loader_ok_def)
  have v: "validate_data_quality loader_ok
             = ([LogInfo ''Validando calidad de los datos'',
                 LogInfo ''Total de filas'', LogInfo ''Archivos procesados'',
                 LogInfo ''Rango de carga'', LogInfo ''Esquema de tabla'',
                 LogInfo ''   - fecha: DATE'', LogInfo ''   - cantidad: INTEGER''], True)"
    by (simp add: validate_data_quality_def loader_ok_def Let_def)
  from load_errors_halt_before_validation[OF j] je
  obtain l where "load_data_from_gcs loader_job_errors = Some (l, False)" by blast
  then have 1: "load_data_from_gcs loader_job_errors
       = Some (load_log 2 @ [LogError ''Errores en la carga''], False)"
    using je by (simp add: load_terminal[OF j(3,4,5)])
  from load_errors_halt_before_validation[OF k] ke
  obtain l' where "load_data_from_gcs loader_ok = Some (l', True)" by blast
  then have 2: "load_data_from_gcs loader_ok
       = Some (load_log 2 @ [LogInfo ''Carga completada exitosamente!'',
                             LogInfo ''Registros cargados'', LogInfo ''Tamano de tabla''], True)"
    using ke by (simp add: load_terminal[OF k(3,4,5)])
  show ?thesis
    using je ke 1 2
    by (simp add: main_after_setup[OF j(1,2)] main_after_setup[OF k(1,2)] v)
qed

end
